theory Spec2Isabelle
  imports Main "HOL-Library.Char_ord" "HOL-Library.List_Lexorder" "HOL-Library.Sublist"
begin

section \<open>Strings\<close>

text \<open>
  JavaScript strings are modelled as \<^typ>\<open>string\<close>: a character is a code unit below 256.
  Among these the class \<^verbatim>\<open>\s\<close>, which is also what \<^verbatim>\<open>trim\<close> removes, has the six ASCII white
  space characters and the no-break space; \<^verbatim>\<open>\w\<close> is ASCII only; \<^verbatim>\<open>toLowerCase\<close> maps the
  letters \<^verbatim>\<open>A\<close> to \<^verbatim>\<open>Z\<close> and the capital letters from 0xC0 to 0xDE, the sign 0xD7 apart.
\<close>

definition isSpace :: "char \<Rightarrow> bool" where
  "isSpace c =
     (c \<in> set [CHR 0x09, CHR 0x0A, CHR 0x0B, CHR 0x0C, CHR 0x0D, CHR 0x20, CHR 0xA0])"

definition isWordChar :: "char \<Rightarrow> bool" where
  "isWordChar c =
     (c \<in> set ''abcdefghijklmnopqrstuvwxyzABCDEFGHIJKLMNOPQRSTUVWXYZ0123456789_'')"

text \<open>The class \<^verbatim>\<open>[\s\W]\<close>.\<close>

definition isSepChar :: "char \<Rightarrow> bool" where
  "isSepChar c = (isSpace c \<or> \<not> isWordChar c)"

text \<open>The class \<^verbatim>\<open>[a-zA-Z0-9_\-/]\<close>.\<close>

definition isTagChar :: "char \<Rightarrow> bool" where
  "isTagChar c = (isWordChar c \<or> c = CHR ''-'' \<or> c = CHR ''/'')"

definition upperLetters :: string where
  "upperLetters =
     ''ABCDEFGHIJKLMNOPQRSTUVWXYZ'' @
        [CHR 0xC0, CHR 0xC1, CHR 0xC2, CHR 0xC3, CHR 0xC4, CHR 0xC5, CHR 0xC6, CHR 0xC7,
         CHR 0xC8, CHR 0xC9, CHR 0xCA, CHR 0xCB, CHR 0xCC, CHR 0xCD, CHR 0xCE, CHR 0xCF,
         CHR 0xD0, CHR 0xD1, CHR 0xD2, CHR 0xD3, CHR 0xD4, CHR 0xD5, CHR 0xD6, CHR 0xD8,
         CHR 0xD9, CHR 0xDA, CHR 0xDB, CHR 0xDC, CHR 0xDD, CHR 0xDE]"

definition lowerLetters :: string where
  "lowerLetters =
     ''abcdefghijklmnopqrstuvwxyz'' @
        [CHR 0xE0, CHR 0xE1, CHR 0xE2, CHR 0xE3, CHR 0xE4, CHR 0xE5, CHR 0xE6, CHR 0xE7,
         CHR 0xE8, CHR 0xE9, CHR 0xEA, CHR 0xEB, CHR 0xEC, CHR 0xED, CHR 0xEE, CHR 0xEF,
         CHR 0xF0, CHR 0xF1, CHR 0xF2, CHR 0xF3, CHR 0xF4, CHR 0xF5, CHR 0xF6, CHR 0xF8,
         CHR 0xF9, CHR 0xFA, CHR 0xFB, CHR 0xFC, CHR 0xFD, CHR 0xFE]"

definition toLowerChar :: "char \<Rightarrow> char" where
  "toLowerChar c =
     (case map_of (zip upperLetters lowerLetters) c of
        Some l \<Rightarrow> l
      | None \<Rightarrow> c)"

definition toLowerCase :: "string \<Rightarrow> string" where
  "toLowerCase s = map toLowerChar s"

definition startsWith :: "string \<Rightarrow> string \<Rightarrow> bool" where
  "startsWith s p = (take (length p) s = p)"

definition endsWith :: "string \<Rightarrow> string \<Rightarrow> bool" where
  "endsWith s p = (length p \<le> length s \<and> drop (length s - length p) s = p)"

definition trim :: "string \<Rightarrow> string" where
  "trim s = rev (dropWhile isSpace (rev (dropWhile isSpace s)))"

text \<open>\<^verbatim>\<open>s.split(d)\<close> for a one-character separator: never the empty array.\<close>

fun splitOn :: "char \<Rightarrow> string \<Rightarrow> string list" where
  "splitOn d [] = [[]]"
| "splitOn d (c # cs) =
     (if c = d then [] # splitOn d cs
      else (case splitOn d cs of [] \<Rightarrow> [[c]] | p # ps \<Rightarrow> (c # p) # ps))"

fun joinWith :: "string \<Rightarrow> string list \<Rightarrow> string" where
  "joinWith sep [] = []"
| "joinWith sep [p] = p"
| "joinWith sep (p # q # ps) = p @ sep @ joinWith sep (q # ps)"

text \<open>
  \<^verbatim>\<open>s.replace(/\s+/g, r)\<close>: every maximal run of white space becomes one \<open>r\<close>. The flag
  says that the previous character belonged to a run already replaced.
\<close>

fun replaceSpaceRuns :: "bool \<Rightarrow> string \<Rightarrow> string \<Rightarrow> string" where
  "replaceSpaceRuns inRun r [] = []"
| "replaceSpaceRuns inRun r (c # cs) =
     (if isSpace c then (if inRun then replaceSpaceRuns True r cs
                         else r @ replaceSpaceRuns True r cs)
      else c # replaceSpaceRuns False r cs)"

definition replaceSpaces :: "string \<Rightarrow> string \<Rightarrow> string" where
  "replaceSpaces r s = replaceSpaceRuns False r s"

text \<open>\<^verbatim>\<open>s.replace(/\\/g, '/')\<close>.\<close>

definition slashes :: "string \<Rightarrow> string" where
  "slashes s = map (\<lambda>c. if c = CHR 0x5C then CHR ''/'' else c) s"

fun firstSome :: "('a \<Rightarrow> 'b option) \<Rightarrow> 'a list \<Rightarrow> 'b option" where
  "firstSome f [] = None"
| "firstSome f (x # xs) = (case f x of Some y \<Rightarrow> Some y | None \<Rightarrow> firstSome f xs)"

section \<open>Path sanitization\<close>

text \<open>
  \<^verbatim>\<open>sanitizePathForLink\<close>: back slashes become forward slashes, then every white-space run
  inside a path component becomes one underscore.
\<close>

definition sanitizePathForLink :: "string \<Rightarrow> string" where
  "sanitizePathForLink filePath =
     joinWith ''/'' (map (replaceSpaces ''_'') (splitOn (CHR ''/'') (slashes filePath)))"

section \<open>Tag extraction\<close>

text \<open>
  The regular expression \<^verbatim>\<open>/```[\s\S]*?```|`[^`]+`/g\<close> at the start of a string: the text
  behind the match, when there is one. The fenced alternative is tried first; its lazy body
  ends at the first closing fence.
\<close>

fun findFence :: "string \<Rightarrow> string option" where
  "findFence [] = None"
| "findFence (c # cs) =
     (if startsWith (c # cs) ''```'' then Some (drop 3 (c # cs)) else findFence cs)"

definition codeSpanAt :: "string \<Rightarrow> string option" where
  "codeSpanAt s =
     (case (if startsWith s ''```'' then findFence (drop 3 s) else None) of
        Some rest \<Rightarrow> Some rest
      | None \<Rightarrow>
          (if startsWith s ''`'' then
             (let body = takeWhile (\<lambda>c. c \<noteq> CHR ''`'') (drop 1 s);
                  rest = dropWhile (\<lambda>c. c \<noteq> CHR ''`'') (drop 1 s)
              in if body \<noteq> [] \<and> startsWith rest ''`'' then Some (drop 1 rest) else None)
           else None))"

text \<open>
  The loop over \<^verbatim>\<open>codeBlockRegex.exec(content)\<close> of \<^verbatim>\<open>extractTags\<close>: \<open>acc\<close> is the text
  since \<^verbatim>\<open>lastIndex\<close>; a part is pushed only when it is not empty.
\<close>

definition pushPart :: "string \<Rightarrow> string list" where
  "pushPart acc = (if acc = [] then [] else [acc])"

function nonCodeParts :: "string \<Rightarrow> string \<Rightarrow> string list" where
  "nonCodeParts acc [] = pushPart acc"
| "nonCodeParts acc (c # cs) =
     (case codeSpanAt (c # cs) of
        Some rest \<Rightarrow>
          (if length rest \<le> length cs then pushPart acc @ nonCodeParts [] rest
           else nonCodeParts (acc @ [c]) cs)
      | None \<Rightarrow> nonCodeParts (acc @ [c]) cs)"
  by pat_completeness auto
termination
  by (relation "measure (\<lambda>(acc, s). length s)") auto

text \<open>
  The tag expression \<^verbatim>\<open>/(?:^|[\s\W])#([a-zA-Z0-9_\-/]+)(?=[\s\W]|$)/g\<close>. The look-ahead
  is tried at the longest run of tag characters first, then at each shorter one.
\<close>

definition tagLookahead :: "string \<Rightarrow> bool" where
  "tagLookahead rest = (case rest of [] \<Rightarrow> True | c # _ \<Rightarrow> isSepChar c)"

fun tagBacktrack :: "nat \<Rightarrow> string \<Rightarrow> (string \<times> string) option" where
  "tagBacktrack 0 s = None"
| "tagBacktrack (Suc k) s =
     (if tagLookahead (drop (Suc k) s) then Some (take (Suc k) s, drop (Suc k) s)
      else tagBacktrack k s)"

text \<open>The part \<^verbatim>\<open>#([a-zA-Z0-9_\-/]+)(?=[\s\W]|$)\<close> at the start of a string.\<close>

definition hashTagAt :: "string \<Rightarrow> (string \<times> string) option" where
  "hashTagAt s =
     (case s of
        [] \<Rightarrow> None
      | c # r \<Rightarrow> if c = CHR ''#'' then tagBacktrack (length (takeWhile isTagChar r)) r
                 else None)"

text \<open>
  A match at the start of the string: at index 0 the alternative \<^verbatim>\<open>^\<close> comes first, then the
  alternative that consumes one separator character.
\<close>

definition tagAt :: "bool \<Rightarrow> string \<Rightarrow> (string \<times> string) option" where
  "tagAt atStart s =
     (case (if atStart then hashTagAt s else None) of
        Some m \<Rightarrow> Some m
      | None \<Rightarrow> (case s of
                   [] \<Rightarrow> None
                 | c # r \<Rightarrow> if isSepChar c then hashTagAt r else None))"

function tagScan :: "bool \<Rightarrow> string \<Rightarrow> string list" where
  "tagScan atStart [] = []"
| "tagScan atStart (c # cs) =
     (case tagAt atStart (c # cs) of
        Some (tag, rest) \<Rightarrow>
          (if length rest \<le> length cs then tag # tagScan False rest
           else tagScan False cs)
      | None \<Rightarrow> tagScan False cs)"
  by pat_completeness auto
termination
  by (relation "measure (\<lambda>(b, s). length s)") auto

text \<open>
  \<^verbatim>\<open>extractTags\<close>: the parts outside code are joined with nothing between them; when no
  part was pushed the whole content is searched. The result is the set of tags, sorted by
  code unit.
\<close>

definition extractTags :: "string \<Rightarrow> string list" where
  "extractTags content =
     (let parts = nonCodeParts [] content;
          textToSearch = (if parts \<noteq> [] then concat parts else content)
      in sort (remdups (filter (\<lambda>t. trim t \<noteq> []) (map trim (tagScan True textToSearch)))))"

section \<open>The header block\<close>

text \<open>
  The expression \<^verbatim>\<open>/^---\s*\n([\s\S]*?)\n---\s*\n/\<close>. \<open>wsNewlineRests s\<close> lists what can follow a
  match of \<^verbatim>\<open>\s*\n\<close> at the start of \<open>s\<close>, in the order the greedy star tries them: longest
  run of white space first.
\<close>

fun wsNewlineRests :: "string \<Rightarrow> string list" where
  "wsNewlineRests [] = []"
| "wsNewlineRests (c # cs) =
     (if isSpace c then wsNewlineRests cs @ (if c = CHR 0x0A then [cs] else []) else [])"

text \<open>The closing \<^verbatim>\<open>\n---\s*\n\<close> at the start of a string: the text behind it.\<close>

definition closeAt :: "string \<Rightarrow> string option" where
  "closeAt s =
     (if startsWith s ''\<newline>---'' then
        (case wsNewlineRests (drop 4 s) of [] \<Rightarrow> None | r # _ \<Rightarrow> Some r)
      else None)"

text \<open>The lazy group followed by the closing: the group and the text behind the match.\<close>

fun findClose :: "string \<Rightarrow> (string \<times> string) option" where
  "findClose [] = None"
| "findClose (c # cs) =
     (case closeAt (c # cs) of
        Some r \<Rightarrow> Some ([], r)
      | None \<Rightarrow> (case findClose cs of Some (b, r) \<Rightarrow> Some (c # b, r) | None \<Rightarrow> None))"

definition matchFrontmatter :: "string \<Rightarrow> (string \<times> string) option" where
  "matchFrontmatter content =
     (if startsWith content ''---'' then firstSome findClose (wsNewlineRests (drop 3 content))
      else None)"

section \<open>Objects\<close>

text \<open>
  An object literal filled by assignments: the keys in insertion order. Assigning a string to
  the key \<^verbatim>\<open>__proto__\<close> changes nothing; \<^verbatim>\<open>Object.entries\<close> lists the keys that are array
  indices first, by value, then the other keys in insertion order.
\<close>

datatype fmValue = Str string | TagsObj "(string \<times> string) list"

fun objAssign :: "(string \<times> 'v) list \<Rightarrow> string \<Rightarrow> 'v \<Rightarrow> (string \<times> 'v) list" where
  "objAssign [] k v = [(k, v)]"
| "objAssign ((k', v') # kvs) k v =
     (if k' = k then (k, v) # kvs else (k', v') # objAssign kvs k v)"

definition objSet :: "(string \<times> 'v) list \<Rightarrow> string \<Rightarrow> 'v \<Rightarrow> (string \<times> 'v) list" where
  "objSet obj k v = (if k = ''__proto__'' then obj else objAssign obj k v)"

definition objGet :: "(string \<times> 'v) list \<Rightarrow> string \<Rightarrow> 'v option" where
  "objGet obj k = map_of obj k"

definition digitVal :: "char \<Rightarrow> int" where
  "digitVal c = (case map_of (zip ''0123456789'' [0, 1, 2, 3, 4, 5, 6, 7, 8, 9]) c of
                   Some d \<Rightarrow> d | None \<Rightarrow> 0)"

definition isDigit :: "char \<Rightarrow> bool" where
  "isDigit c = (c \<in> set ''0123456789'')"

definition numVal :: "string \<Rightarrow> int" where
  "numVal s = foldl (\<lambda>n c. 10 * n + digitVal c) 0 s"

definition isArrayIndex :: "string \<Rightarrow> bool" where
  "isArrayIndex k =
     (k \<noteq> [] \<and> list_all isDigit k \<and> (k = ''0'' \<or> hd k \<noteq> CHR ''0'') \<and> numVal k < 4294967295)"

fun insertIndexKey :: "string \<times> 'v \<Rightarrow> (string \<times> 'v) list \<Rightarrow> (string \<times> 'v) list" where
  "insertIndexKey kv [] = [kv]"
| "insertIndexKey kv (kv' # kvs) =
     (if numVal (fst kv) \<le> numVal (fst kv') then kv # kv' # kvs
      else kv' # insertIndexKey kv kvs)"

definition objEntries :: "(string \<times> 'v) list \<Rightarrow> (string \<times> 'v) list" where
  "objEntries obj =
     foldr insertIndexKey (filter (\<lambda>kv. isArrayIndex (fst kv)) obj) []
     @ filter (\<lambda>kv. \<not> isArrayIndex (fst kv)) obj"

section \<open>Merging the metadata\<close>

record setInfo =
  setName :: string
  setPath :: "string list"
  setRelativePath :: string
  isRootSet :: bool
  rootSet :: "string option"
  setFileName :: string
  isDeletedSet :: bool

text \<open>The test \<^verbatim>\<open>setInfo && setInfo.rootSet\<close>: the root set when it is a non-empty string.\<close>

definition rootSetOf :: "setInfo option \<Rightarrow> string option" where
  "rootSetOf si =
     (case si of
        None \<Rightarrow> None
      | Some i \<Rightarrow> (case rootSet i of None \<Rightarrow> None
                   | Some r \<Rightarrow> if r = [] then None else Some r))"

definition pageTypeOf :: "setInfo option \<Rightarrow> string" where
  "pageTypeOf si = (case rootSetOf si of Some _ \<Rightarrow> ''SetLeaf'' | None \<Rightarrow> ''Page'')"

definition indexOfColon :: "string \<Rightarrow> nat option" where
  "indexOfColon line =
     (if CHR '':'' \<in> set line then Some (length (takeWhile (\<lambda>c. c \<noteq> CHR '':'') line))
      else None)"

definition unquote :: "string \<Rightarrow> string" where
  "unquote v =
     (if (startsWith v ''\"'' \<and> endsWith v ''\"'') \<or> (startsWith v [CHR 0x27] \<and> endsWith v [CHR 0x27])
      then butlast (tl v) else v)"

text \<open>The \<^verbatim>\<open>forEach\<close> over the lines of the existing header block.\<close>

definition parseLine :: "(string \<times> fmValue) list \<Rightarrow> string \<Rightarrow> (string \<times> fmValue) list" where
  "parseLine obj line =
     (case indexOfColon line of
        None \<Rightarrow> obj
      | Some colonIndex \<Rightarrow>
          if colonIndex > 0 then
            objSet obj (trim (take colonIndex line))
              (Str (unquote (trim (drop (Suc colonIndex) line))))
          else obj)"

definition parseFrontmatter :: "string \<Rightarrow> (string \<times> fmValue) list" where
  "parseFrontmatter existingFrontmatter =
     foldl parseLine [] (splitOn (CHR 0x0A) existingFrontmatter)"

definition sortTags :: "string list \<Rightarrow> string list" where
  "sortTags ts = sort (remdups ts)"

definition makeTagsObj :: "string list \<Rightarrow> (string \<times> string) list" where
  "makeTagsObj ts = foldl (\<lambda>obj t. objSet obj t t) [] ts"

text \<open>
  The tags already in the header: the parser only produces strings, so a non-empty string is
  split at commas; the array and object branches of the source cannot be reached from it.
\<close>

definition existingTagsOf :: "(string \<times> fmValue) list \<Rightarrow> string list" where
  "existingTagsOf obj =
     (case objGet obj ''tags'' of
        None \<Rightarrow> []
      | Some (Str s) \<Rightarrow> if s = [] then [] else map trim (splitOn (CHR '','') s)
      | Some (TagsObj kvs) \<Rightarrow> map fst (objEntries kvs))"

definition mergeExisting ::
  "string \<Rightarrow> string list \<Rightarrow> setInfo option \<Rightarrow> (string \<times> fmValue) list" where
  "mergeExisting existingFrontmatter tags si =
     (let obj0 = parseFrontmatter existingFrontmatter;
          obj1 = objAssign obj0 ''type'' (Str (pageTypeOf si));
          obj2 = (case rootSetOf si of Some r \<Rightarrow> objAssign obj1 ''set'' (Str r) | None \<Rightarrow> obj1)
      in if tags \<noteq> [] then
           objAssign obj2 ''tags'' (TagsObj (makeTagsObj (sortTags (existingTagsOf obj2 @ tags))))
         else obj2)"

definition freshFrontmatter :: "string list \<Rightarrow> setInfo option \<Rightarrow> (string \<times> fmValue) list" where
  "freshFrontmatter tags si =
     (let obj1 = [(''type'', Str (pageTypeOf si))];
          obj2 = (case rootSetOf si of Some r \<Rightarrow> objAssign obj1 ''set'' (Str r) | None \<Rightarrow> obj1)
      in if tags \<noteq> [] then objAssign obj2 ''tags'' (TagsObj (makeTagsObj tags)) else obj2)"

definition renderEntry :: "string \<times> fmValue \<Rightarrow> string" where
  "renderEntry kv =
     (case kv of
        (key, Str v) \<Rightarrow> key @ '': \"'' @ v @ ''\"''
      | (key, TagsObj kvs) \<Rightarrow>
          if key = ''tags'' then
            key @ '':\<newline>'' @
              joinWith ''\<newline>'' (map (\<lambda>(k, v). ''  '' @ k @ '': \"'' @ v @ ''\"'') (objEntries kvs))
          else key @ '': [object Object]'')"

definition renderFrontmatter :: "(string \<times> fmValue) list \<Rightarrow> string" where
  "renderFrontmatter obj = ''---\<newline>'' @ joinWith ''\<newline>'' (map renderEntry (objEntries obj))"

text \<open>
  The replacement text of \<^verbatim>\<open>content.replace(frontmatterRegex, newFrontmatter)\<close> is a
  template: \<^verbatim>\<open>$$\<close>, \<^verbatim>\<open>$&\<close>, \<^verbatim>\<open>$`\<close>, \<^verbatim>\<open>$'\<close> and \<^verbatim>\<open>$1\<close>, \<^verbatim>\<open>$01\<close> are substituted. The
  expression has one group; the match starts the content, so nothing precedes it.
\<close>

definition templateHead :: "string \<Rightarrow> string \<Rightarrow> string \<Rightarrow> string \<Rightarrow> string \<times> nat" where
  "templateHead matched group1 after t =
     (if startsWith t ''$$'' then (''$'', 2)
      else if startsWith t ''$&'' then (matched, 2)
      else if startsWith t [CHR ''$'', CHR 0x60] then ([], 2)
      else if startsWith t [CHR ''$'', CHR 0x27] then (after, 2)
      else if startsWith t ''$01'' then (group1, 3)
      else if startsWith t ''$00'' then (''$00'', 3)
      else if startsWith t ''$1'' then (group1, 2)
      else (take 1 t, 1))"

text \<open>
  The template is read from left to right; \<open>skip\<close> counts the characters of a pattern already
  substituted.
\<close>

fun expandFrom :: "string \<Rightarrow> string \<Rightarrow> string \<Rightarrow> nat \<Rightarrow> string \<Rightarrow> string" where
  "expandFrom matched group1 after skip [] = []"
| "expandFrom matched group1 after (Suc skip) (c # t) = expandFrom matched group1 after skip t"
| "expandFrom matched group1 after 0 (c # t) =
     fst (templateHead matched group1 after (c # t))
     @ expandFrom matched group1 after (snd (templateHead matched group1 after (c # t)) - 1) t"

definition expandTemplate :: "string \<Rightarrow> string \<Rightarrow> string \<Rightarrow> string \<Rightarrow> string" where
  "expandTemplate matched group1 after t = expandFrom matched group1 after 0 t"

definition addPageMetadata :: "string \<Rightarrow> setInfo option \<Rightarrow> string" where
  "addPageMetadata content si =
     (let tags = extractTags content in
      case matchFrontmatter content of
        Some (existingFrontmatter, after) \<Rightarrow>
          expandTemplate (take (length content - length after) content) existingFrontmatter after
            (renderFrontmatter (mergeExisting existingFrontmatter tags si) @ ''\<newline>---\<newline>'')
          @ after
      | None \<Rightarrow>
          renderFrontmatter (freshFrontmatter tags si) @ ''\<newline>---\<newline>\<newline>'' @ content)"

section \<open>Paths and the file system\<close>

text \<open>
  A path is modelled resolved: the list of its components below the file-system root, as
  \<^verbatim>\<open>path.resolve\<close> would give it on a POSIX system; a trailing separator is not represented.
  \<open>pathString\<close> writes a path back as a string.
\<close>

type_synonym path = "string list"

definition pathString :: "path \<Rightarrow> string" where
  "pathString p = ''/'' @ joinWith ''/'' p"

text \<open>\<^verbatim>\<open>path.basename\<close>, \<^verbatim>\<open>path.extname\<close> and \<^verbatim>\<open>path.isAbsolute\<close> on strings.\<close>

definition basename :: "string \<Rightarrow> string" where
  "basename s =
     rev (takeWhile (\<lambda>c. c \<noteq> CHR ''/'') (dropWhile (\<lambda>c. c = CHR ''/'') (rev s)))"

definition extname :: "string \<Rightarrow> string" where
  "extname s =
     (let b = basename s;
          afterDot = rev (takeWhile (\<lambda>c. c \<noteq> CHR ''.'') (rev b))
      in if CHR ''.'' \<notin> set b \<or> b = ''..'' \<or> length afterDot + 1 = length b then []
         else CHR ''.'' # afterDot)"

text \<open>\<^verbatim>\<open>path.basename(p, path.extname(p))\<close>.\<close>

definition basenameNoExt :: "string \<Rightarrow> string" where
  "basenameNoExt s = take (length (basename s) - length (extname s)) (basename s)"

definition isAbsolute :: "string \<Rightarrow> bool" where
  "isAbsolute s = startsWith s ''/''"

fun normSegs :: "path \<Rightarrow> string list \<Rightarrow> path" where
  "normSegs acc [] = acc"
| "normSegs acc (seg # segs) =
     (if seg = [] \<or> seg = ''.'' then normSegs acc segs
      else if seg = ''..'' then normSegs (butlast acc) segs
      else normSegs (acc @ [seg]) segs)"

text \<open>\<^verbatim>\<open>path.join(base, s)\<close> and \<^verbatim>\<open>path.resolve(base, s)\<close> for a relative \<open>s\<close>, resolved.\<close>

definition joinPath :: "path \<Rightarrow> string \<Rightarrow> path" where
  "joinPath base s = normSegs base (splitOn (CHR ''/'') s)"

definition parseAbsolute :: "string \<Rightarrow> path" where
  "parseAbsolute s = normSegs [] (splitOn (CHR ''/'') s)"

definition dirname :: "path \<Rightarrow> path" where
  "dirname p = butlast p"

definition baseOf :: "path \<Rightarrow> string" where
  "baseOf p = (if p = [] then [] else last p)"

text \<open>\<^verbatim>\<open>normalizePath\<close>: resolved and in lower case.\<close>

definition normalizePath :: "path \<Rightarrow> path" where
  "normalizePath p = map toLowerCase p"

fun relativeSegs :: "path \<Rightarrow> path \<Rightarrow> string list" where
  "relativeSegs (a # as) (b # bs) =
     (if a = b then relativeSegs as bs else replicate (Suc (length as)) ''..'' @ (b # bs))"
| "relativeSegs as bs = replicate (length as) ''..'' @ bs"

text \<open>\<^verbatim>\<open>path.relative(from, to)\<close>, with forward slashes.\<close>

definition relative :: "path \<Rightarrow> path \<Rightarrow> string" where
  "relative from to = joinWith ''/'' (relativeSegs from to)"

text \<open>
  The file system is a tree: a regular file with its name and content, or a directory with
  its name and its entries in the order \<^verbatim>\<open>readdirSync\<close> lists them. Names are compared as
  they are, as on a case-sensitive file system.
\<close>

datatype entry = FileE string string | DirE string "entry list"

fun entryName :: "entry \<Rightarrow> string" where
  "entryName (FileE n c) = n"
| "entryName (DirE n es) = n"

fun isDirectory :: "entry \<Rightarrow> bool" where
  "isDirectory (FileE n c) = False"
| "isDirectory (DirE n es) = True"

fun findEntry :: "string \<Rightarrow> entry list \<Rightarrow> entry option" where
  "findEntry n [] = None"
| "findEntry n (e # es) = (if entryName e = n then Some e else findEntry n es)"

fun lookup :: "entry list \<Rightarrow> path \<Rightarrow> entry option" where
  "lookup es [] = None"
| "lookup es [n] = findEntry n es"
| "lookup es (n # m # p) =
     (case findEntry n es of Some (DirE _ cs) \<Rightarrow> lookup cs (m # p) | _ \<Rightarrow> None)"

definition existsSync :: "entry list \<Rightarrow> path \<Rightarrow> bool" where
  "existsSync fs p = (p = [] \<or> lookup fs p \<noteq> None)"

text \<open>Reading fails (\<open>None\<close>) where the source's call throws.\<close>

definition readFileSync :: "entry list \<Rightarrow> path \<Rightarrow> string option" where
  "readFileSync fs p = (case lookup fs p of Some (FileE _ c) \<Rightarrow> Some c | _ \<Rightarrow> None)"

definition readdirSync :: "entry list \<Rightarrow> path \<Rightarrow> entry list option" where
  "readdirSync fs p =
     (if p = [] then Some fs
      else (case lookup fs p of Some (DirE _ cs) \<Rightarrow> Some cs | _ \<Rightarrow> None))"

section \<open>Exclusion\<close>

definition ciStartsWith :: "string \<Rightarrow> string \<Rightarrow> bool" where
  "ciStartsWith s p = (toLowerCase (take (length p) s) = p)"

definition wordEnd :: "string \<Rightarrow> bool" where
  "wordEnd r = (case r of [] \<Rightarrow> True | c # _ \<Rightarrow> \<not> isWordChar c)"

text \<open>\<^verbatim>\<open>deleted\s*:\s*(true|yes|1)\b\<close> and \<^verbatim>\<open>status\s*:\s*deleted\b\<close>, ignoring case, at the start.\<close>

definition deletedFlagAt :: "string \<Rightarrow> bool" where
  "deletedFlagAt s =
     (ciStartsWith s ''deleted'' \<and>
      (let r = dropWhile isSpace (drop 7 s) in
       startsWith r '':'' \<and>
       (let v = dropWhile isSpace (drop 1 r) in
        (ciStartsWith v ''true'' \<and> wordEnd (drop 4 v)) \<or>
        (ciStartsWith v ''yes'' \<and> wordEnd (drop 3 v)) \<or>
        (ciStartsWith v ''1'' \<and> wordEnd (drop 1 v)))))"

definition statusDeletedAt :: "string \<Rightarrow> bool" where
  "statusDeletedAt s =
     (ciStartsWith s ''status'' \<and>
      (let r = dropWhile isSpace (drop 6 s) in
       startsWith r '':'' \<and>
       (let v = dropWhile isSpace (drop 1 r) in
        ciStartsWith v ''deleted'' \<and> wordEnd (drop 7 v))))"

text \<open>
  \<^verbatim>\<open>regex.test\<close> for an expression that starts with \<^verbatim>\<open>\b\<close> and a word character: a match may
  start wherever the previous character is not a word character.
\<close>

fun searchWord :: "(string \<Rightarrow> bool) \<Rightarrow> bool \<Rightarrow> string \<Rightarrow> bool" where
  "searchWord m prevWord [] = False"
| "searchWord m prevWord (c # cs) = ((\<not> prevWord \<and> m (c # cs)) \<or> searchWord m (isWordChar c) cs)"

definition declaresDeleted :: "string \<Rightarrow> bool" where
  "declaresDeleted frontmatter =
     (searchWord deletedFlagAt False frontmatter \<or> searchWord statusDeletedAt False frontmatter)"

definition markerName :: "string \<Rightarrow> bool" where
  "markerName lowerName =
     (lowerName = ''deleted'' \<or> lowerName = ''trash'' \<or>
      startsWith lowerName ''deleted_'' \<or> startsWith lowerName ''trash_'' \<or>
      endsWith lowerName ''_deleted'' \<or> endsWith lowerName ''_trash'')"

definition isMarkdownExt :: "string \<Rightarrow> bool" where
  "isMarkdownExt ext = (ext = ''.md'' \<or> ext = ''.markdown'')"

definition isDeleted :: "entry list \<Rightarrow> path \<Rightarrow> string \<Rightarrow> bool" where
  "isDeleted fs filePath name =
     (if markerName (toLowerCase name) then True
      else if isMarkdownExt (toLowerCase (extname (pathString filePath))) then
        (case readFileSync fs filePath of
           None \<Rightarrow> False
         | Some content \<Rightarrow>
             (case matchFrontmatter content of
                Some (frontmatter, _) \<Rightarrow> declaresDeleted frontmatter
              | None \<Rightarrow> False))
      else False)"

text \<open>The test \<^verbatim>\<open>entry.name.startsWith('.') && entry.name !== '.'\<close>.\<close>

definition hiddenName :: "string \<Rightarrow> bool" where
  "hiddenName n = (startsWith n ''.'' \<and> n \<noteq> ''.'')"

fun includesStr :: "string \<Rightarrow> string \<Rightarrow> bool" where
  "includesStr [] sub = (sub = [])"
| "includesStr (c # cs) sub = (startsWith (c # cs) sub \<or> includesStr cs sub)"

definition includedExtensions :: "string list" where
  "includedExtensions =
     [''.md'', ''.markdown'',
      ''.png'', ''.jpg'', ''.jpeg'', ''.gif'', ''.svg'', ''.webp'', ''.bmp'', ''.ico'', ''.tiff'',
      ''.tif'', ''.heic'', ''.heif'',
      ''.pdf'', ''.doc'', ''.docx'', ''.xls'', ''.xlsx'', ''.ppt'', ''.pptx'', ''.odt'', ''.ods'',
      ''.odp'',
      ''.mp3'', ''.mp4'', ''.wav'', ''.ogg'', ''.flac'', ''.aac'', ''.m4a'', ''.wma'',
      ''.avi'', ''.mov'', ''.wmv'', ''.flv'', ''.mkv'', ''.webm'',
      ''.zip'', ''.rar'', ''.7z'', ''.tar'', ''.gz'',
      ''.txt'', ''.csv'', ''.json'', ''.xml'', ''.yaml'', ''.yml'', ''.toml'',
      ''.js'', ''.ts'', ''.py'', ''.java'', ''.cpp'', ''.c'', ''.h'', ''.html'', ''.css'',
      ''.rtf'', ''.epub'', ''.mobi'', ''.azw'', ''.fb2'']"

definition shouldIncludeFile :: "entry list \<Rightarrow> path \<Rightarrow> bool" where
  "shouldIncludeFile fs filePath =
     (let ext = toLowerCase (extname (pathString filePath));
          name = basename (pathString filePath)
      in if isDeleted fs filePath name then False
         else if list_ex (\<lambda>excluded. includesStr (pathString filePath) (''/'' @ excluded))
                   [''.obsidian'', ''.trash'', ''.git'']
         then False
         else if ext \<in> set includedExtensions then True
         else \<not> list_ex (\<lambda>e. includesStr name e) [''.obsidian'', ''.DS_Store''])"

section \<open>Searching for files\<close>

text \<open>
  \<^verbatim>\<open>findFileRecursively\<close>: the entries of a directory in listing order, \<open>dir\<close> being the path of
  the directory they belong to. A subdirectory is searched only while the depth stays below
  \<open>maxDepth\<close>.
\<close>

fun findInEntries :: "entry list \<Rightarrow> path \<Rightarrow> string \<Rightarrow> nat \<Rightarrow> nat \<Rightarrow> entry list \<Rightarrow> path option" where
  "findInEntries fs dir fileName maxDepth currentDepth [] = None"
| "findInEntries fs dir fileName maxDepth currentDepth (FileE n c # es) =
     (if hiddenName n \<or> isDeleted fs (dir @ [n]) n then
        findInEntries fs dir fileName maxDepth currentDepth es
      else if toLowerCase n = toLowerCase fileName then Some (dir @ [n])
      else findInEntries fs dir fileName maxDepth currentDepth es)"
| "findInEntries fs dir fileName maxDepth currentDepth (DirE n cs # es) =
     (if hiddenName n \<or> isDeleted fs (dir @ [n]) n then
        findInEntries fs dir fileName maxDepth currentDepth es
      else (case (if Suc currentDepth \<ge> maxDepth then None
                  else findInEntries fs (dir @ [n]) fileName maxDepth (Suc currentDepth) cs) of
              Some found \<Rightarrow> Some found
            | None \<Rightarrow> findInEntries fs dir fileName maxDepth currentDepth es))"

definition findFileRecursively :: "entry list \<Rightarrow> path \<Rightarrow> string \<Rightarrow> nat \<Rightarrow> nat \<Rightarrow> path option" where
  "findFileRecursively fs searchDir fileName maxDepth currentDepth =
     (if currentDepth \<ge> maxDepth then None
      else (case readdirSync fs searchDir of
              None \<Rightarrow> None
            | Some entries \<Rightarrow> findInEntries fs searchDir fileName maxDepth currentDepth entries))"

section \<open>Replacing all matches\<close>

text \<open>
  \<^verbatim>\<open>content.replace(regex, callback)\<close> for a global expression: \<open>at\<close> gives the groups of a
  match at the start of a string and the text behind it; the callback gets the matched text and
  the groups, and what it returns is inserted as it is. Every expression below consumes at
  least one character, which is what the comparison of lengths says.
\<close>

function replaceWith ::
  "(string \<Rightarrow> ('g \<times> string) option) \<Rightarrow> (string \<Rightarrow> 'g \<Rightarrow> string) \<Rightarrow> string \<Rightarrow> string" where
  "replaceWith at f [] = []"
| "replaceWith at f (c # cs) =
     (case at (c # cs) of
        Some (g, rest) \<Rightarrow>
          (if length rest \<le> length cs then
             f (take (Suc (length cs) - length rest) (c # cs)) g @ replaceWith at f rest
           else c # replaceWith at f cs)
      | None \<Rightarrow> c # replaceWith at f cs)"
  by pat_completeness auto
termination
  by (relation "measure (\<lambda>(at, f, s). length s)") auto

text \<open>\<^verbatim>\<open>/\[\[([^\]]+)\]\]/g\<close> and \<^verbatim>\<open>/!\[\[([^\]]+)\]\]/g\<close>.\<close>

definition bracketBody :: "string \<Rightarrow> (string \<times> string) option" where
  "bracketBody s =
     (let body = takeWhile (\<lambda>c. c \<noteq> CHR '']'') s;
          rest = dropWhile (\<lambda>c. c \<noteq> CHR '']'') s
      in if body \<noteq> [] \<and> startsWith rest '']]'' then Some (body, drop 2 rest) else None)"

definition wikiLinkAt :: "string \<Rightarrow> (string \<times> string) option" where
  "wikiLinkAt s = (if startsWith s ''[['' then bracketBody (drop 2 s) else None)"

definition embedAt :: "string \<Rightarrow> (string \<times> string) option" where
  "embedAt s = (if startsWith s ''![['' then bracketBody (drop 3 s) else None)"

text \<open>\<^verbatim>\<open>/!\[([^\]]*)\]\(([^)]+)\)/g\<close>: the alternative text and the target.\<close>

definition markdownImageAt :: "string \<Rightarrow> ((string \<times> string) \<times> string) option" where
  "markdownImageAt s =
     (if startsWith s ''!['' then
        (let altText = takeWhile (\<lambda>c. c \<noteq> CHR '']'') (drop 2 s);
             rest1 = dropWhile (\<lambda>c. c \<noteq> CHR '']'') (drop 2 s)
         in if startsWith rest1 ''](''
            then (let imagePath = takeWhile (\<lambda>c. c \<noteq> CHR '')'') (drop 2 rest1);
                      rest2 = dropWhile (\<lambda>c. c \<noteq> CHR '')'') (drop 2 rest1)
                  in if imagePath \<noteq> [] \<and> startsWith rest2 '')''
                     then Some ((altText, imagePath), drop 1 rest2) else None)
            else None)
      else None)"

section \<open>Note references\<close>

text \<open>The inner \<^verbatim>\<open>findFile\<close> of \<^verbatim>\<open>convertObsidianLinks\<close>: no depth limit, nothing skipped.\<close>

fun findNoteInEntries :: "path \<Rightarrow> string \<Rightarrow> entry list \<Rightarrow> path option" where
  "findNoteInEntries dir fileName [] = None"
| "findNoteInEntries dir fileName (FileE n c # es) =
     (if toLowerCase n = toLowerCase fileName @ ''.md'' then Some (dir @ [n])
      else findNoteInEntries dir fileName es)"
| "findNoteInEntries dir fileName (DirE n cs # es) =
     (case findNoteInEntries (dir @ [n]) fileName cs of
        Some found \<Rightarrow> Some found
      | None \<Rightarrow> findNoteInEntries dir fileName es)"

definition findFile :: "entry list \<Rightarrow> path \<Rightarrow> string \<Rightarrow> path option" where
  "findFile fs dir fileName =
     (case readdirSync fs dir of
        None \<Rightarrow> None
      | Some entries \<Rightarrow> findNoteInEntries dir fileName entries)"

definition noteNameOf :: "string \<Rightarrow> string" where
  "noteNameOf linkContent =
     (case splitOn (CHR ''|'') linkContent of [] \<Rightarrow> [] | p0 # _ \<Rightarrow> trim p0)"

definition displayTextOf :: "string \<Rightarrow> string" where
  "displayTextOf linkContent =
     (case splitOn (CHR ''|'') linkContent of
        p0 # p1 # _ \<Rightarrow> if p1 \<noteq> [] then trim p1 else noteNameOf linkContent
      | _ \<Rightarrow> noteNameOf linkContent)"

text \<open>The resolution of a note name: the first candidate that exists, else the search.\<close>

definition resolveNote :: "entry list \<Rightarrow> path \<Rightarrow> path \<Rightarrow> string \<Rightarrow> path option" where
  "resolveNote fs vaultPath baseDir noteName =
     (let possiblePaths =
            [joinPath baseDir (noteName @ ''.md''),
             joinPath baseDir (noteName @ ''.md''),
             joinPath baseDir (replaceSpaces '' '' noteName @ ''.md'')]
      in case find (existsSync fs) possiblePaths of
           Some p \<Rightarrow> Some p
         | None \<Rightarrow> findFile fs vaultPath noteName)"

definition wikiLinkCallback :: "entry list \<Rightarrow> path \<Rightarrow> path \<Rightarrow> string \<Rightarrow> string \<Rightarrow> string" where
  "wikiLinkCallback fs vaultPath baseDir matched linkContent =
     (let noteName = noteNameOf linkContent;
          displayText = displayTextOf linkContent
      in case resolveNote fs vaultPath baseDir noteName of
           Some foundPath \<Rightarrow>
             ''['' @ displayText @ ''](''  @ slashes (relative vaultPath foundPath) @ '')''
         | None \<Rightarrow>
             ''['' @ displayText @ ''](''  @ (replaceSpaces '' '' noteName @ ''.md'') @ '')'')"

definition convertObsidianLinks :: "entry list \<Rightarrow> path \<Rightarrow> string \<Rightarrow> path \<Rightarrow> string" where
  "convertObsidianLinks fs vaultPath content baseDir =
     replaceWith wikiLinkAt (wikiLinkCallback fs vaultPath baseDir) content"

section \<open>Embeds and images\<close>

definition isAttachmentsName :: "string \<Rightarrow> bool" where
  "isAttachmentsName lowerName =
     (lowerName = ''attachments'' \<or> lowerName = ''attachment'' \<or>
      startsWith lowerName ''attachments_'')"

text \<open>The loop that walks up, at most ten times, to the folder whose parent is the vault.\<close>

fun findRootFolder :: "nat \<Rightarrow> path \<Rightarrow> path \<Rightarrow> path option" where
  "findRootFolder 0 vaultPath currentDir = None"
| "findRootFolder (Suc i) vaultPath currentDir =
     (if normalizePath (dirname currentDir) = normalizePath vaultPath then Some currentDir
      else findRootFolder i vaultPath (dirname currentDir))"

text \<open>The inner \<^verbatim>\<open>findAttachmentsFolders\<close>: directories only, nothing skipped.\<close>

fun findAttachmentsIn :: "entry list \<Rightarrow> path \<Rightarrow> string \<Rightarrow> nat \<Rightarrow> nat \<Rightarrow> entry list \<Rightarrow> path option" where
  "findAttachmentsIn fs dir imageFileName maxDepth currentDepth [] = None"
| "findAttachmentsIn fs dir imageFileName maxDepth currentDepth (FileE n c # es) =
     findAttachmentsIn fs dir imageFileName maxDepth currentDepth es"
| "findAttachmentsIn fs dir imageFileName maxDepth currentDepth (DirE n cs # es) =
     (case (if isAttachmentsName (toLowerCase n)
            then findInEntries fs (dir @ [n]) imageFileName 10 0 cs else None) of
        Some found \<Rightarrow> Some found
      | None \<Rightarrow>
          (case (if Suc currentDepth \<ge> maxDepth then None
                 else findAttachmentsIn fs (dir @ [n]) imageFileName maxDepth (Suc currentDepth) cs) of
             Some subFound \<Rightarrow> Some subFound
           | None \<Rightarrow> findAttachmentsIn fs dir imageFileName maxDepth currentDepth es))"

definition findAttachmentsFolders :: "entry list \<Rightarrow> path \<Rightarrow> string \<Rightarrow> path option" where
  "findAttachmentsFolders fs dir imageFileName =
     (case readdirSync fs dir of
        None \<Rightarrow> None
      | Some entries \<Rightarrow> findAttachmentsIn fs dir imageFileName 5 0 entries)"

text \<open>
  One step of the chain \<^verbatim>\<open>if (!fs.existsSync(fullImagePath)) { ... }\<close>: the candidate
  replaces the path only when the path does not exist and the candidate was found.
\<close>

definition orElse :: "entry list \<Rightarrow> path \<Rightarrow> path option \<Rightarrow> path" where
  "orElse fs fullImagePath candidate =
     (if existsSync fs fullImagePath then fullImagePath
      else (case candidate of Some found \<Rightarrow> found | None \<Rightarrow> fullImagePath))"

definition existing :: "entry list \<Rightarrow> path \<Rightarrow> path option" where
  "existing fs p = (if existsSync fs p then Some p else None)"

definition searchInDir :: "entry list \<Rightarrow> path \<Rightarrow> string \<Rightarrow> path option" where
  "searchInDir fs dir fileName =
     (if existsSync fs dir then findFileRecursively fs dir fileName 10 0 else None)"

definition searchRootFolder :: "entry list \<Rightarrow> path \<Rightarrow> path \<Rightarrow> string \<Rightarrow> path option" where
  "searchRootFolder fs vaultPath fileDir fileName =
     (case findRootFolder 10 vaultPath fileDir of
        None \<Rightarrow> None
      | Some rootFolder \<Rightarrow> findFileRecursively fs rootFolder fileName 10 0)"

text \<open>The search of the embed callback: the path that \<^verbatim>\<open>fullImagePath\<close> ends with.\<close>

definition resolveEmbed :: "entry list \<Rightarrow> path \<Rightarrow> path \<Rightarrow> string \<Rightarrow> path" where
  "resolveEmbed fs vaultPath fileDir imagePath =
     (let imageFileName = basename imagePath;
          p0 = (if isAbsolute imagePath then parseAbsolute imagePath
                else joinPath fileDir imagePath);
          p1 = (if existsSync fs p0 then p0 else joinPath vaultPath imagePath);
          p2 = orElse fs p1 (existing fs (joinPath (fileDir @ [''attachments'']) imagePath));
          p3 = orElse fs p2 (existing fs (joinPath (vaultPath @ [''attachments'']) imagePath));
          p4 = orElse fs p3 (findFileRecursively fs fileDir imageFileName 3 0);
          p5 = orElse fs p4 (searchInDir fs (fileDir @ [''attachments'']) imageFileName);
          p6 = orElse fs p5 (searchInDir fs (vaultPath @ [''attachments'']) imageFileName);
          p7 = orElse fs p6 (findFileRecursively fs fileDir imageFileName 5 0);
          p8 = orElse fs p7 (searchRootFolder fs vaultPath fileDir imageFileName);
          p9 = orElse fs p8 (findAttachmentsFolders fs vaultPath imageFileName)
      in orElse fs p9 (findFileRecursively fs vaultPath imageFileName 10 0))"

definition embedCallback :: "entry list \<Rightarrow> path \<Rightarrow> path \<Rightarrow> string \<Rightarrow> string \<Rightarrow> string" where
  "embedCallback fs vaultPath fileDir matched imagePath =
     (let fullImagePath = resolveEmbed fs vaultPath fileDir imagePath in
      if existsSync fs fullImagePath then
        (let relativePath = slashes (relative vaultPath fullImagePath);
             linkPath = (if startsWith relativePath ''../'' then imagePath else relativePath)
         in ''!['' @ basenameNoExt imagePath @ ''](''
              @ slashes (sanitizePathForLink linkPath) @ '')'')
      else
        (let imagePathToUse =
               (if \<not> isAbsolute imagePath \<and> \<not> startsWith imagePath ''http://''
                   \<and> \<not> startsWith imagePath ''https://''
                then (let relativeFromVault = relative vaultPath (joinPath fileDir imagePath)
                      in if \<not> startsWith relativeFromVault ''..'' then slashes relativeFromVault
                         else imagePath)
                else imagePath)
         in ''!['' @ basename imagePath @ ''](''
              @ slashes (sanitizePathForLink imagePathToUse) @ '')''))"

definition fileExts :: "string list" where
  "fileExts =
     [''.png'', ''.jpg'', ''.jpeg'', ''.gif'', ''.svg'', ''.webp'', ''.bmp'', ''.ico'', ''.tiff'',
      ''.tif'', ''.heic'', ''.heif'',
      ''.pdf'', ''.doc'', ''.docx'', ''.xls'', ''.xlsx'', ''.ppt'', ''.pptx'', ''.odt'', ''.ods'',
      ''.odp'',
      ''.mp3'', ''.mp4'', ''.wav'', ''.ogg'', ''.flac'', ''.aac'', ''.m4a'', ''.wma'', ''.avi'',
      ''.mov'', ''.wmv'', ''.flv'', ''.mkv'', ''.webm'',
      ''.zip'', ''.rar'', ''.7z'', ''.tar'', ''.gz'', ''.txt'', ''.csv'', ''.json'', ''.xml'',
      ''.html'', ''.css'', ''.js'']"

text \<open>The repair of a target that ends in \<^verbatim>\<open>.md\<close> behind a known extension.\<close>

definition cleanImagePathOf :: "string \<Rightarrow> string" where
  "cleanImagePathOf imagePath =
     (if endsWith (toLowerCase imagePath) ''.md'' then
        (let withoutMd = take (length imagePath - 3) imagePath
         in if list_ex (\<lambda>ext. endsWith (toLowerCase withoutMd) ext) fileExts then withoutMd
            else imagePath)
      else imagePath)"

definition orSearch :: "path option \<Rightarrow> path option \<Rightarrow> path option" where
  "orSearch fullImagePath candidate =
     (case fullImagePath of Some p \<Rightarrow> Some p | None \<Rightarrow> candidate)"

definition resolveMarkdownImage :: "entry list \<Rightarrow> path \<Rightarrow> path \<Rightarrow> string \<Rightarrow> path option" where
  "resolveMarkdownImage fs vaultPath fileDir cleanImagePath =
     (if startsWith cleanImagePath ''./'' \<or> startsWith cleanImagePath ''../'' then
        existing fs (joinPath fileDir cleanImagePath)
      else if \<not> isAbsolute cleanImagePath then
        (let imageFileName = basename cleanImagePath;
             q0 = find (existsSync fs)
                    [joinPath fileDir cleanImagePath,
                     joinPath vaultPath cleanImagePath,
                     joinPath (fileDir @ [''attachments'']) cleanImagePath,
                     joinPath (vaultPath @ [''attachments'']) cleanImagePath];
             q1 = orSearch q0 (findFileRecursively fs fileDir imageFileName 5 0);
             q2 = orSearch q1 (searchInDir fs (fileDir @ [''attachments'']) imageFileName);
             q3 = orSearch q2 (searchInDir fs (vaultPath @ [''attachments'']) imageFileName);
             q4 = orSearch q3 (searchRootFolder fs vaultPath fileDir imageFileName)
         in orSearch q4 (findFileRecursively fs vaultPath imageFileName 10 0))
      else existing fs (parseAbsolute cleanImagePath))"

definition isRemoteTarget :: "string \<Rightarrow> bool" where
  "isRemoteTarget imagePath =
     (startsWith imagePath ''http://'' \<or> startsWith imagePath ''https://'' \<or>
      startsWith imagePath ''data:'')"

definition markdownImageCallback ::
  "entry list \<Rightarrow> path \<Rightarrow> path \<Rightarrow> string \<Rightarrow> string \<times> string \<Rightarrow> string" where
  "markdownImageCallback fs vaultPath fileDir matched groups =
     (let altText = fst groups; imagePath = snd groups in
      if isRemoteTarget imagePath then matched
      else
        (let cleanImagePath = cleanImagePathOf imagePath;
             resolvedPath =
               (case resolveMarkdownImage fs vaultPath fileDir cleanImagePath of
                  None \<Rightarrow> cleanImagePath
                | Some fullImagePath \<Rightarrow>
                    (let relativeFromVault = relative vaultPath fullImagePath
                     in if \<not> startsWith relativeFromVault ''..'' then slashes relativeFromVault
                        else cleanImagePath))
         in ''!['' @ altText @ ''](''  @ slashes (sanitizePathForLink resolvedPath) @ '')''))"

definition convertImages :: "entry list \<Rightarrow> path \<Rightarrow> string \<Rightarrow> path \<Rightarrow> string" where
  "convertImages fs vaultPath content fileDir =
     replaceWith markdownImageAt (markdownImageCallback fs vaultPath fileDir)
       (replaceWith embedAt (embedCallback fs vaultPath fileDir) content)"

text \<open>\<^verbatim>\<open>processMarkdownFile\<close> on the content read from the file.\<close>

definition processMarkdownFile ::
  "entry list \<Rightarrow> path \<Rightarrow> string \<Rightarrow> path \<Rightarrow> setInfo option \<Rightarrow> string" where
  "processMarkdownFile fs vaultPath content filePath si =
     (let fileDir = dirname filePath in
      addPageMetadata
        (convertImages fs vaultPath (convertObsidianLinks fs vaultPath content fileDir) fileDir)
        si)"

section \<open>The hierarchy\<close>

definition isRootLevelFolder :: "path \<Rightarrow> path \<Rightarrow> path option \<Rightarrow> bool" where
  "isRootLevelFolder vaultPath dirPath rootPath =
     (let effectiveRoot = (case rootPath of Some r \<Rightarrow> r | None \<Rightarrow> vaultPath)
      in normalizePath (dirname dirPath) = normalizePath effectiveRoot)"

text \<open>
  The loop \<^verbatim>\<open>while (true)\<close> of \<^verbatim>\<open>getRootSetForPathExport\<close>. It has no bound: the result is
  \<open>None\<close> where the loop does not end, \<open>Some\<close> of the returned value otherwise.
\<close>

partial_function (option) walkUpToRoot ::
  "entry list \<Rightarrow> path \<Rightarrow> path \<Rightarrow> path \<Rightarrow> string option option" where
  "walkUpToRoot fs normalizedPath normalizedRootPath currentDir =
     (if normalizePath (dirname currentDir) = normalizedRootPath then
        Some (if \<not> isDeleted fs currentDir (baseOf currentDir) then Some (baseOf currentDir)
              else None)
      else if normalizedPath = normalizePath (dirname currentDir) then Some None
      else walkUpToRoot fs normalizedPath normalizedRootPath (dirname currentDir))"

declare walkUpToRoot.simps [code]

definition getRootSetForPathExport ::
  "entry list \<Rightarrow> path \<Rightarrow> path \<Rightarrow> path \<Rightarrow> string option option" where
  "getRootSetForPathExport fs vaultPath dirPath exportRootPath =
     (if normalizePath dirPath = normalizePath exportRootPath then Some None
      else if isRootLevelFolder vaultPath dirPath (Some exportRootPath) then
        Some (if \<not> isDeleted fs dirPath (baseOf dirPath) then Some (baseOf dirPath) else None)
      else walkUpToRoot fs (normalizePath dirPath) (normalizePath exportRootPath) dirPath)"

text \<open>The cache \<^verbatim>\<open>sets\<close>, a map from the key string to the object stored under it.\<close>

type_synonym sets = "string \<rightharpoonup> setInfo"

definition cacheKeyOf :: "path \<Rightarrow> path \<Rightarrow> string" where
  "cacheKeyOf dirPath exportRootPath =
     pathString (normalizePath dirPath) @ ''_'' @ pathString (normalizePath exportRootPath)"

definition setFileNameOf :: "string \<Rightarrow> string" where
  "setFileNameOf relPath = (if relPath \<noteq> [] then slashes relPath @ ''/.set.md'' else ''.set.md'')"

definition getSetInfoForExport ::
  "entry list \<Rightarrow> path \<Rightarrow> sets \<Rightarrow> path \<Rightarrow> string \<Rightarrow> path \<Rightarrow> (setInfo \<times> sets) option" where
  "getSetInfoForExport fs vaultPath cache dirPath relPath exportRootPath =
     (let cacheKey = cacheKeyOf dirPath exportRootPath in
      case cache cacheKey of
        Some cached \<Rightarrow> Some (cached, cache)
      | None \<Rightarrow>
          (let dirName = baseOf dirPath;
               lowerName = toLowerCase dirName
           in if lowerName = ''deleted'' \<or> lowerName = ''trash'' \<or>
                 startsWith lowerName ''deleted_'' \<or> startsWith lowerName ''trash_''
              then
                (let info = \<lparr>setName = (if dirName \<noteq> [] then dirName else ''Root''),
                             setPath = dirPath, setRelativePath = relPath, isRootSet = False,
                             rootSet = None, setFileName = setFileNameOf relPath,
                             isDeletedSet = True\<rparr>
                 in Some (info, cache(cacheKey \<mapsto> info)))
              else
                (let isRootLevel = isRootLevelFolder vaultPath dirPath (Some exportRootPath) in
                 case (if isRootLevel then Some (Some dirName)
                       else getRootSetForPathExport fs vaultPath dirPath exportRootPath) of
                   None \<Rightarrow> None
                 | Some root \<Rightarrow>
                     (let info = \<lparr>setName = (if dirName \<noteq> [] then dirName else ''Root''),
                                  setPath = dirPath, setRelativePath = relPath,
                                  isRootSet = isRootLevel, rootSet = root,
                                  setFileName = setFileNameOf relPath, isDeletedSet = False\<rparr>
                      in Some (info, cache(cacheKey \<mapsto> info))))))"

section \<open>Relative path strings\<close>

text \<open>\<^verbatim>\<open>path.posix.normalize\<close> and \<^verbatim>\<open>path.posix.join\<close> of two strings.\<close>

fun normalizeString :: "bool \<Rightarrow> string list \<Rightarrow> string list \<Rightarrow> string list" where
  "normalizeString allowAboveRoot acc [] = acc"
| "normalizeString allowAboveRoot acc (seg # segs) =
     (if seg = [] \<or> seg = ''.'' then normalizeString allowAboveRoot acc segs
      else if seg = ''..'' then
        (if acc \<noteq> [] \<and> last acc \<noteq> ''..'' then normalizeString allowAboveRoot (butlast acc) segs
         else if allowAboveRoot then normalizeString allowAboveRoot (acc @ [''..'']) segs
         else normalizeString allowAboveRoot acc segs)
      else normalizeString allowAboveRoot (acc @ [seg]) segs)"

definition posixNormalize :: "string \<Rightarrow> string" where
  "posixNormalize p =
     (if p = [] then ''.''
      else
        (let isAbs = startsWith p ''/'';
             trailingSeparator = endsWith p ''/'';
             body = joinWith ''/'' (normalizeString (\<not> isAbs) [] (splitOn (CHR ''/'') p))
         in if body = [] then (if isAbs then ''/'' else if trailingSeparator then ''./'' else ''.'')
            else (if isAbs then ''/'' else []) @ body @ (if trailingSeparator then ''/'' else [])))"

definition posixJoin :: "string \<Rightarrow> string \<Rightarrow> string" where
  "posixJoin a b =
     (if a = [] \<and> b = [] then ''.''
      else if a = [] then posixNormalize b
      else if b = [] then posixNormalize a
      else posixNormalize (a @ ''/'' @ b))"

section \<open>The traversal\<close>

text \<open>
  The archive is the list of the entries appended to it, each a name and a content. A listed
  file is read as the content the listing holds for it.
\<close>

type_synonym archive = "(string \<times> string) list"

definition visibleEntries :: "entry list \<Rightarrow> path \<Rightarrow> entry list \<Rightarrow> entry list" where
  "visibleEntries fs dir entries =
     filter (\<lambda>e. \<not> hiddenName (entryName e) \<and> \<not> isDeleted fs (dir @ [entryName e]) (entryName e))
       entries"

definition directoriesOf :: "entry list \<Rightarrow> path \<Rightarrow> entry list \<Rightarrow> entry list" where
  "directoriesOf fs dir entries = filter isDirectory (visibleEntries fs dir entries)"

definition filesOf :: "entry list \<Rightarrow> path \<Rightarrow> entry list \<Rightarrow> entry list" where
  "filesOf fs dir entries =
     filter (\<lambda>e. \<not> isDirectory e \<and> shouldIncludeFile fs (dir @ [entryName e]))
       (visibleEntries fs dir entries)"

definition entryRelativePathOf :: "string \<Rightarrow> string \<Rightarrow> string" where
  "entryRelativePathOf relPath n = (if relPath \<noteq> [] then slashes (posixJoin relPath n) else n)"

text \<open>
  The choice of \<^verbatim>\<open>noteSetInfo\<close> for a document of the directory: the root set is computed
  again and written into the object of the directory, which is the one the cache holds.
\<close>

definition noteSetInfoFor ::
  "entry list \<Rightarrow> path \<Rightarrow> path \<Rightarrow> path \<Rightarrow> setInfo \<Rightarrow> sets \<Rightarrow> (setInfo option \<times> setInfo \<times> sets) option" where
  "noteSetInfoFor fs vaultPath dir effectiveRootPath info cache =
     (if normalizePath dir \<noteq> normalizePath vaultPath then
        (case getRootSetForPathExport fs vaultPath dir effectiveRootPath of
           None \<Rightarrow> None
         | Some found \<Rightarrow>
             (case (case found of None \<Rightarrow> None | Some r \<Rightarrow> if r = [] then None else Some r) of
                Some r \<Rightarrow>
                  if rootSet info = None \<or> rootSet info = Some [] \<or> rootSet info \<noteq> Some r then
                    (let fixed = info\<lparr>rootSet := Some r\<rparr>
                     in Some (Some fixed, fixed, cache(cacheKeyOf dir effectiveRootPath \<mapsto> fixed)))
                  else Some (Some info, info, cache)
              | None \<Rightarrow> Some (Some info, info, cache)))
      else Some (None, info, cache))"

definition processFile ::
  "entry list \<Rightarrow> path \<Rightarrow> path \<Rightarrow> string \<Rightarrow> path \<Rightarrow> entry \<Rightarrow> archive \<times> setInfo \<times> sets
     \<Rightarrow> (archive \<times> setInfo \<times> sets) option" where
  "processFile fs vaultPath dir relPath effectiveRootPath e st =
     (case e of
        DirE _ _ \<Rightarrow> Some st
      | FileE n content \<Rightarrow>
          (let fullPath = dir @ [n];
               sanitizedPath = sanitizePathForLink (entryRelativePathOf relPath n);
               ext = toLowerCase (extname (pathString fullPath))
           in case st of (zipEntries, info, cache) \<Rightarrow>
                if isMarkdownExt ext then
                  (if n = ''.set.md'' then Some st
                   else (case noteSetInfoFor fs vaultPath dir effectiveRootPath info cache of
                           None \<Rightarrow> None
                         | Some (noteSetInfo, info', cache') \<Rightarrow>
                             Some (zipEntries @ [(sanitizedPath,
                                           processMarkdownFile fs vaultPath content fullPath noteSetInfo)],
                                   info', cache')))
                else Some (zipEntries @ [(sanitizedPath, content)], info, cache)))"

fun processFiles ::
  "entry list \<Rightarrow> path \<Rightarrow> path \<Rightarrow> string \<Rightarrow> path \<Rightarrow> entry list \<Rightarrow> archive \<times> setInfo \<times> sets
     \<Rightarrow> (archive \<times> setInfo \<times> sets) option" where
  "processFiles fs vaultPath dir relPath effectiveRootPath [] st = Some st"
| "processFiles fs vaultPath dir relPath effectiveRootPath (e # es) st =
     (case processFile fs vaultPath dir relPath effectiveRootPath e st of
        None \<Rightarrow> None
      | Some st' \<Rightarrow> processFiles fs vaultPath dir relPath effectiveRootPath es st')"

lemma size_list_filter_le: "size_list f (filter P xs) \<le> size_list f xs"
  by (induction xs) auto

text \<open>
  \<^verbatim>\<open>processDirectory\<close>: \<open>entries\<close> is the listing of \<open>dir\<close>. The files are processed first, each
  list in the order of the listing; the result is \<open>None\<close> where a loop of the source does not
  end.
\<close>

function processDirectory ::
    "entry list \<Rightarrow> path \<Rightarrow> path \<Rightarrow> entry list \<Rightarrow> string \<Rightarrow> path option \<Rightarrow> archive \<times> sets
       \<Rightarrow> (archive \<times> sets) option"
  and processDirectories ::
    "entry list \<Rightarrow> path \<Rightarrow> path \<Rightarrow> string \<Rightarrow> path \<Rightarrow> entry list \<Rightarrow> archive \<times> sets
       \<Rightarrow> (archive \<times> sets) option" where
  "processDirectory fs vaultPath dir entries relPath exportRootPath st =
     (if isDeleted fs dir (baseOf dir) then Some st
      else
        (case getSetInfoForExport fs vaultPath (snd st) dir relPath
                (case exportRootPath of Some r \<Rightarrow> r | None \<Rightarrow> vaultPath) of
           None \<Rightarrow> None
         | Some (info, cache1) \<Rightarrow>
             (case processFiles fs vaultPath dir relPath
                     (case exportRootPath of Some r \<Rightarrow> r | None \<Rightarrow> vaultPath)
                     (filesOf fs dir entries) (fst st, info, cache1) of
                None \<Rightarrow> None
              | Some (zip2, info2, cache2) \<Rightarrow>
                  processDirectories fs vaultPath dir relPath
                    (case exportRootPath of Some r \<Rightarrow> r | None \<Rightarrow> vaultPath)
                    (directoriesOf fs dir entries) (zip2, cache2))))"
| "processDirectories fs vaultPath dir relPath effectiveRootPath [] st = Some st"
| "processDirectories fs vaultPath dir relPath effectiveRootPath (FileE n c # ds) st =
     processDirectories fs vaultPath dir relPath effectiveRootPath ds st"
| "processDirectories fs vaultPath dir relPath effectiveRootPath (DirE n cs # ds) st =
     (case processDirectory fs vaultPath (dir @ [n]) cs
             (sanitizePathForLink (entryRelativePathOf relPath n)) (Some effectiveRootPath) st of
        None \<Rightarrow> None
      | Some st' \<Rightarrow> processDirectories fs vaultPath dir relPath effectiveRootPath ds st')"
  by pat_completeness auto
termination
proof (relation "measure (\<lambda>x. case x of
          Inl (fs, vaultPath, dir, entries, relPath, exportRootPath, st) \<Rightarrow>
            2 * size_list size entries + 1
        | Inr (fs, vaultPath, dir, relPath, effectiveRootPath, ds, st) \<Rightarrow>
            2 * size_list size ds)", goal_cases)
  case 1
  show ?case by simp
next
  case (2 fs vaultPath dir entries relPath exportRootPath st)
  have "size_list size (directoriesOf fs dir entries) \<le> size_list size entries"
    unfolding directoriesOf_def visibleEntries_def
    by (meson order_trans size_list_filter_le)
  then show ?case by simp
qed simp_all

section \<open>The index\<close>

text \<open>\<^verbatim>\<open>getFirstMarkdownFile\<close>: the listing in its order, nothing hidden skipped.\<close>

fun firstMarkdownIn :: "entry list \<Rightarrow> path \<Rightarrow> entry list \<Rightarrow> string option" where
  "firstMarkdownIn fs dir [] = None"
| "firstMarkdownIn fs dir (FileE n c # es) =
     (if isMarkdownExt (toLowerCase (extname n)) \<and> n \<noteq> ''.set.md''
         \<and> \<not> isDeleted fs (dir @ [n]) n
      then Some n else firstMarkdownIn fs dir es)"
| "firstMarkdownIn fs dir (DirE n cs # es) =
     (if \<not> isDeleted fs (dir @ [n]) n then
        (case firstMarkdownIn fs (dir @ [n]) cs of
           Some found \<Rightarrow> if found \<noteq> [] then Some (posixJoin n found)
                         else firstMarkdownIn fs dir es
         | None \<Rightarrow> firstMarkdownIn fs dir es)
      else firstMarkdownIn fs dir es)"

text \<open>
  \<^verbatim>\<open>Array.prototype.sort\<close> with the comparison \<^verbatim>\<open>a.name.localeCompare(b.name)\<close>: a stable
  sort. The collation belongs to the platform; \<open>localeLe a b\<close> stands for
  \<^verbatim>\<open>a.localeCompare(b) <= 0\<close>.
\<close>

fun insertBy :: "(string \<Rightarrow> string \<Rightarrow> bool) \<Rightarrow> entry \<Rightarrow> entry list \<Rightarrow> entry list" where
  "insertBy localeLe e [] = [e]"
| "insertBy localeLe e (x # xs) =
     (if localeLe (entryName e) (entryName x) then e # x # xs
      else x # insertBy localeLe e xs)"

definition sortByName :: "(string \<Rightarrow> string \<Rightarrow> bool) \<Rightarrow> entry list \<Rightarrow> entry list" where
  "sortByName localeLe es = foldr (insertBy localeLe) es []"

text \<open>The test that skips an entry of the outline.\<close>

definition outlineSkips :: "entry list \<Rightarrow> path \<Rightarrow> string \<Rightarrow> bool" where
  "outlineSkips fs dirPath n =
     ((startsWith n ''.'' \<and> n \<noteq> ''.'' \<and> n \<noteq> ''.set.md'') \<or> n = ''.set.md'' \<or>
      isDeleted fs (dirPath @ [n]) n)"

text \<open>\<^verbatim>\<open>path.basename(name, ext)\<close> for a name without separators.\<close>

definition stripExt :: "string \<Rightarrow> string \<Rightarrow> string" where
  "stripExt n ext =
     (if ext \<noteq> [] \<and> length ext \<le> length n then
        (if ext = n then []
         else if endsWith n ext then take (length n - length ext) n else n)
      else n)"

definition relativeDepth :: "path \<Rightarrow> path \<Rightarrow> nat" where
  "relativeDepth vaultRootPath fullPath =
     length (filter (\<lambda>p. p \<noteq> [] \<and> p \<noteq> ''.'')
               (splitOn (CHR ''/'') (relative vaultRootPath fullPath)))"

definition outlineLink :: "path \<Rightarrow> path \<Rightarrow> string \<Rightarrow> string \<Rightarrow> string" where
  "outlineLink dirPath vaultRootPath relativePathPrefix n =
     (let ext = toLowerCase (extname n);
          fileRelativePath =
            (if relativePathPrefix \<noteq> [] then slashes (posixJoin relativePathPrefix n)
             else slashes (relative vaultRootPath (dirPath @ [n])));
          sanitized = sanitizePathForLink fileRelativePath;
          sanitizedPath =
            (if \<not> endsWith (toLowerCase sanitized) ''.md''
                \<and> \<not> endsWith (toLowerCase sanitized) ''.markdown''
             then sanitized @ ext else sanitized)
      in ''- ['' @ stripExt n ext @ ''](''  @ slashes sanitizedPath @ '')\<newline>'')"

text \<open>
  \<^verbatim>\<open>buildFolderStructure\<close>: the headings of the subdirectories, each followed by its own
  outline, then the links to the documents. Every call of the source starts with the heading
  level 2, so the number of \<^verbatim>\<open>#\<close> is never negative.
\<close>

function buildFolderStructure ::
  "(string \<Rightarrow> string \<Rightarrow> bool) \<Rightarrow> entry list \<Rightarrow> path \<Rightarrow> entry list \<Rightarrow> path \<Rightarrow> nat \<Rightarrow> nat \<Rightarrow> nat
     \<Rightarrow> string \<Rightarrow> string" where
  "buildFolderStructure localeLe fs dirPath entries vaultRootPath headingLevel maxDepth
       currentDepth relativePathPrefix =
     (if currentDepth \<ge> maxDepth then []
      else
        concat (map (\<lambda>e. case e of
                  FileE _ _ \<Rightarrow> []
                | DirE n cs \<Rightarrow>
                    if isAttachmentsName (toLowerCase n) then []
                    else
                      replicate (min (headingLevel + relativeDepth vaultRootPath (dirPath @ [n]) - 1) 6)
                          (CHR ''#'')
                        @ '' '' @ n @ ''\<newline>''
                        @ buildFolderStructure localeLe fs (dirPath @ [n]) cs vaultRootPath
                            headingLevel maxDepth (Suc currentDepth)
                            (if relativePathPrefix \<noteq> [] then slashes (posixJoin relativePathPrefix n)
                             else slashes (relative vaultRootPath (dirPath @ [n]))))
               (sortByName localeLe
                  (filter (\<lambda>e. isDirectory e \<and> \<not> outlineSkips fs dirPath (entryName e)) entries)))
        @ concat (map (\<lambda>e. if isMarkdownExt (toLowerCase (extname (entryName e)))
                            then outlineLink dirPath vaultRootPath relativePathPrefix (entryName e)
                            else [])
               (sortByName localeLe
                  (filter (\<lambda>e. \<not> isDirectory e \<and> \<not> outlineSkips fs dirPath (entryName e)
                               \<and> shouldIncludeFile fs (dirPath @ [entryName e])) entries))))"
  by pat_completeness auto
termination
  by (relation "measure (\<lambda>(localeLe, fs, dirPath, entries, vaultRootPath, headingLevel, maxDepth,
                           currentDepth, relativePathPrefix). maxDepth - currentDepth)") auto

record rootFolder =
  folderName :: string
  folderPath :: path
  folderEntries :: "entry list"

record emptyFile =
  emptyName :: string
  emptyPath :: path
  emptyFilePath :: string
  emptyFileName :: string

definition withMdExt :: "string \<Rightarrow> string \<Rightarrow> string" where
  "withMdExt sanitizedPath ext =
     (if endsWith (toLowerCase sanitizedPath) ''.md''
         \<or> endsWith (toLowerCase sanitizedPath) ''.markdown''
      then sanitizedPath else sanitizedPath @ ext)"

text \<open>\<^verbatim>\<open>firstFile.replace(/\.md$/i, '')\<close>.\<close>

definition dropMdSuffix :: "string \<Rightarrow> string" where
  "dropMdSuffix s = (if endsWith (toLowerCase s) ''.md'' then take (length s - 3) s else s)"

text \<open>
  One round of the loop of \<^verbatim>\<open>createVaultSetFile\<close>: what the folder adds to the index, and
  the placeholder document it needs, if any.
\<close>

definition vaultSetEntry ::
  "(string \<Rightarrow> string \<Rightarrow> bool) \<Rightarrow> entry list \<Rightarrow> path \<Rightarrow> rootFolder \<Rightarrow> string \<times> emptyFile list" where
  "vaultSetEntry localeLe fs vaultPath folder =
     (let folderStructure =
            buildFolderStructure localeLe fs (folderPath folder) (folderEntries folder) vaultPath
              2 10 0 (slashes (relative vaultPath (folderPath folder)))
      in if folderStructure \<noteq> [] then (folderStructure, [])
         else
           (case firstMarkdownIn fs (folderPath folder) (folderEntries folder) of
              None \<Rightarrow>
                (let emptyFileName = folderName folder @ ''.md'';
                     relativePath =
                       slashes (relative vaultPath (joinPath (folderPath folder) emptyFileName));
                     filePath = slashes (withMdExt (sanitizePathForLink relativePath) ''.md'')
                 in (''## '' @ folderName folder @ ''\<newline>\<newline>- ['' @ folderName folder @ ''](''
                       @ filePath @ '')\<newline>\<newline>'',
                     [\<lparr>emptyName = folderName folder, emptyPath = folderPath folder,
                       emptyFilePath = filePath, emptyFileName = emptyFileName\<rparr>]))
            | Some firstFile \<Rightarrow>
                (let relativePath =
                       slashes (relative vaultPath (joinPath (folderPath folder) firstFile));
                     filePath =
                       slashes (withMdExt (sanitizePathForLink relativePath) (extname firstFile))
                 in (''## '' @ folderName folder @ ''\<newline>\<newline>- ['' @ dropMdSuffix firstFile
                       @ ''](''  @ filePath @ '')\<newline>\<newline>'', []))))"

definition createVaultSetFile ::
  "(string \<Rightarrow> string \<Rightarrow> bool) \<Rightarrow> entry list \<Rightarrow> path \<Rightarrow> rootFolder list \<Rightarrow> string \<times> emptyFile list" where
  "createVaultSetFile localeLe fs vaultPath rootFolders =
     (if rootFolders = [] then
        (''---\<newline>type: Set\<newline>name: vault\<newline>---\<newline>\<newline># vault\<newline>\<newline>*No root folders found.*\<newline>'', [])
      else
        (let rounds = map (vaultSetEntry localeLe fs vaultPath)
                        (filter (\<lambda>folder. folderName folder \<noteq> []) rootFolders)
         in (''---\<newline>type: \"Set\"\<newline>name: \"vault\"\<newline>---\<newline>\<newline># vault\<newline>\<newline>'' @ concat (map fst rounds),
             concat (map snd rounds))))"

section \<open>The conversion\<close>

datatype outcome = Exit1 | NoRootFolders | Archive archive

definition rootFoldersOf :: "entry list \<Rightarrow> path \<Rightarrow> entry list \<Rightarrow> rootFolder list" where
  "rootFoldersOf fs vaultPath entries =
     concat (map (\<lambda>e. case e of
               FileE _ _ \<Rightarrow> []
             | DirE n cs \<Rightarrow>
                 if hiddenName n \<or> isDeleted fs (vaultPath @ [n]) n
                    \<or> toLowerCase n = ''attachments'' \<or> toLowerCase n = ''attachment''
                 then []
                 else [\<lparr>folderName = n, folderPath = vaultPath @ [n], folderEntries = cs\<rparr>])
            entries)"

definition emptyFileContent :: "string \<Rightarrow> string" where
  "emptyFileContent n =
     ''---\<newline>type: SetLeaf\<newline>set: vault\<newline>---\<newline>\<newline># '' @ n @ ''\<newline>\<newline>This is the root folder: **'' @ n @ ''**\<newline>''"

fun processRootFolders ::
  "entry list \<Rightarrow> path \<Rightarrow> rootFolder list \<Rightarrow> archive \<times> sets \<Rightarrow> (archive \<times> sets) option" where
  "processRootFolders fs vaultPath [] st = Some st"
| "processRootFolders fs vaultPath (folder # folders) st =
     (case processDirectory fs vaultPath (folderPath folder) (folderEntries folder)
             (sanitizePathForLink (folderName folder)) (Some vaultPath) st of
        None \<Rightarrow> None
      | Some st' \<Rightarrow> processRootFolders fs vaultPath folders st')"

text \<open>The last loop: the attachment folders directly under the vault.\<close>

definition attachmentFoldersOf :: "entry list \<Rightarrow> path \<Rightarrow> entry list \<Rightarrow> rootFolder list" where
  "attachmentFoldersOf fs vaultPath entries =
     concat (map (\<lambda>e. case e of
               FileE _ _ \<Rightarrow> []
             | DirE n cs \<Rightarrow>
                 if isAttachmentsName (toLowerCase n) \<and> \<not> isDeleted fs (vaultPath @ [n]) n
                 then [\<lparr>folderName = n, folderPath = vaultPath @ [n], folderEntries = cs\<rparr>]
                 else [])
            entries)"

text \<open>
  \<^verbatim>\<open>convertToAnytype\<close>: the entries appended to the archive, in order. The cache starts
  empty; the result is \<open>None\<close> where a loop of the source does not end.
\<close>

definition convertToAnytype ::
  "(string \<Rightarrow> string \<Rightarrow> bool) \<Rightarrow> entry list \<Rightarrow> path \<Rightarrow> outcome option" where
  "convertToAnytype localeLe fs vaultPath =
     (case readdirSync fs vaultPath of
        None \<Rightarrow> Some Exit1
      | Some entries \<Rightarrow>
          (let rootFolders = rootFoldersOf fs vaultPath entries in
           if rootFolders = [] then Some NoRootFolders
           else
             (let vaultSet = createVaultSetFile localeLe fs vaultPath rootFolders;
                  zip0 = [(''vault.set.md'', fst vaultSet)]
                         @ map (\<lambda>folderInfo. (emptyFilePath folderInfo,
                                               emptyFileContent (emptyName folderInfo)))
                             (snd vaultSet)
              in case processRootFolders fs vaultPath rootFolders (zip0, Map.empty) of
                   None \<Rightarrow> None
                 | Some st1 \<Rightarrow>
                     (case processRootFolders fs vaultPath
                             (attachmentFoldersOf fs vaultPath entries) st1 of
                        None \<Rightarrow> None
                      | Some st2 \<Rightarrow> Some (Archive (fst st2))))))"

section \<open>Example vaults\<close>

text \<open>A vault \<^verbatim>\<open>/v\<close> with one folder: a note with a space in its name, and a note that refers to it.\<close>

definition vaultLinks :: "entry list" where
  "vaultLinks =
     [DirE ''v'' [DirE ''A'' [FileE ''Draft Plan.md'' ''plan'',
                              FileE ''x.md'' ''[[Draft Plan|Plan]]'']]]"

text \<open>A vault with an empty root folder and a root folder that holds only an empty folder.\<close>

definition vaultHollow :: "entry list" where
  "vaultHollow = [DirE ''v'' [DirE ''Hollow'' [], DirE ''R'' [DirE ''S'' []]]]"

section \<open>Matches of an expression\<close>


section \<open>Exclusion as the specification words it\<close>

text \<open>
  The exclusion of an entry in the words of the specification: the name, in lower case, is a
  marker token, or the token and an underscore begin or end it; or, for a document, the header
  block declares an explicit deleted or trashed status, read here as a line \<^verbatim>\<open>deleted\<close> or
  \<^verbatim>\<open>trashed\<close> with the value \<^verbatim>\<open>true\<close>, \<^verbatim>\<open>yes\<close> or \<^verbatim>\<open>1\<close>, or a line \<^verbatim>\<open>status\<close> with the value
  \<^verbatim>\<open>deleted\<close> or \<^verbatim>\<open>trashed\<close>.
\<close>

definition specMarkerName :: "string \<Rightarrow> bool" where
  "specMarkerName n =
     (\<exists>tok \<in> {''deleted'', ''trash''}.
        toLowerCase n = tok \<or> (\<exists>r. toLowerCase n = tok @ ''_'' @ r)
        \<or> (\<exists>r. toLowerCase n = r @ ''_'' @ tok))"

definition specStatusLine :: "string \<Rightarrow> bool" where
  "specStatusLine line =
     (case indexOfColon line of
        None \<Rightarrow> False
      | Some i \<Rightarrow>
          (let k = toLowerCase (trim (take i line));
               v = toLowerCase (trim (drop (Suc i) line))
           in (k \<in> {''deleted'', ''trashed''} \<and> v \<in> {''true'', ''yes'', ''1''})
              \<or> (k = ''status'' \<and> v \<in> {''deleted'', ''trashed''})))"

definition specDeclaresStatus :: "string \<Rightarrow> bool" where
  "specDeclaresStatus frontmatter = list_ex specStatusLine (splitOn (CHR 0x0A) frontmatter)"

definition specIsDeleted :: "entry list \<Rightarrow> path \<Rightarrow> string \<Rightarrow> bool" where
  "specIsDeleted fs filePath n =
     (specMarkerName n \<or>
      (isMarkdownExt (toLowerCase (extname (pathString filePath))) \<and>
       (case readFileSync fs filePath of
          None \<Rightarrow> False
        | Some content \<Rightarrow>
            (case matchFrontmatter content of
               Some (frontmatter, _) \<Rightarrow> specDeclaresStatus frontmatter
             | None \<Rightarrow> False))))"

text \<open>A match may start behind \<open>pre\<close>: at the start of the text or behind a non-word character.\<close>

definition boundaryBefore :: "bool \<Rightarrow> string \<Rightarrow> bool" where
  "boundaryBefore prevWord pre = (if pre = [] then \<not> prevWord else \<not> isWordChar (last pre))"

text \<open>A document whose header declares the status \<^verbatim>\<open>trashed\<close>.\<close>

definition vaultTrashed :: "entry list" where
  "vaultTrashed = [DirE ''v'' [FileE ''a.md'' ''---\<newline>status: trashed\<newline>trashed: true\<newline>---\<newline>x'']]"

section \<open>The order of a traversal\<close>

text \<open>
  The names a traversal of a directory is expected to append to the archive: the files of the
  listing that are kept, in the order of the listing, then what each kept subdirectory
  contributes, in the order of the listing.
\<close>

function traversalNames :: "entry list \<Rightarrow> path \<Rightarrow> string \<Rightarrow> entry list \<Rightarrow> string list"
  and subdirectoryNames :: "entry list \<Rightarrow> path \<Rightarrow> string \<Rightarrow> entry list \<Rightarrow> string list" where
  "traversalNames fs dir relPath entries =
     (if isDeleted fs dir (baseOf dir) then []
      else map (\<lambda>e. sanitizePathForLink (entryRelativePathOf relPath (entryName e)))
             (filesOf fs dir entries)
           @ subdirectoryNames fs dir relPath (directoriesOf fs dir entries))"
| "subdirectoryNames fs dir relPath [] = []"
| "subdirectoryNames fs dir relPath (FileE n c # ds) = subdirectoryNames fs dir relPath ds"
| "subdirectoryNames fs dir relPath (DirE n cs # ds) =
     traversalNames fs (dir @ [n]) (sanitizePathForLink (entryRelativePathOf relPath n)) cs
     @ subdirectoryNames fs dir relPath ds"
  by pat_completeness auto
termination
proof (relation "measure (\<lambda>x. case x of
          Inl (fs, dir, relPath, entries) \<Rightarrow> 2 * size_list size entries + 1
        | Inr (fs, dir, relPath, ds) \<Rightarrow> 2 * size_list size ds)", goal_cases)
  case 1
  show ?case by simp
next
  case (2 fs dir relPath entries)
  have "size_list size (directoriesOf fs dir entries) \<le> size_list size entries"
    unfolding directoriesOf_def visibleEntries_def
    by (meson order_trans size_list_filter_le)
  then show ?case by simp
qed simp_all


text \<open>A folder whose listing is not sorted by name, a subdirectory between two files.\<close>

definition vaultOrder :: "entry list" where
  "vaultOrder =
     [DirE ''v'' [DirE ''R'' [FileE ''b.txt'' ''B'', DirE ''S'' [FileE ''c.txt'' ''C''],
                              FileE ''a.txt'' ''A'']]]"

section \<open>More example vaults\<close>

text \<open>The object of the folder \<^verbatim>\<open>A\<close> of \<open>vaultLinks\<close>, its root set not yet written.\<close>

definition folderInfoA :: setInfo where
  "folderInfoA = \<lparr>setName = ''A'', setPath = [''v'', ''A''], setRelativePath = ''A'',
                  isRootSet = True, rootSet = None, setFileName = ''A/.set.md'',
                  isDeletedSet = False\<rparr>"

text \<open>
  A document that embeds two files, both beside it: one with an extension of the list
  \<open>fileExts\<close>, one with another extension.
\<close>

definition vaultAssets :: "entry list" where
  "vaultAssets =
     [DirE ''v'' [DirE ''A'' [FileE ''p.md'' ''![[data.yaml]] and ![[pic.png]]'',
                              FileE ''data.yaml'' ''k: v'',
                              FileE ''pic.png'' ''P'']]]"

text \<open>A document whose embeds and wiki-link name nothing that exists.\<close>

definition vaultBroken :: "entry list" where
  "vaultBroken =
     [DirE ''v''
        [DirE ''A'' [FileE ''p.md'' ''![[no such pic.png]] [[No Such Note]] ![[no such.yaml]]'']]]"

text \<open>A root folder with a dollar sign in its name, and in it a document with a header block.\<close>

definition vaultDollar :: "entry list" where
  "vaultDollar =
     [DirE ''v'' [DirE ''Top $100'' [FileE ''n.md'' ''---\<newline>title: x\<newline>---\<newline>body'']]]"

section \<open>Repeating the merge\<close>








section \<open>Properties\<close>

subsection \<open>Tags inside literal spans\<close>

text \<open>
  Claim C5: a tag-shaped token that occurs only inside a fenced or inline literal span is never
  extracted. The source falls back to the whole content when no part outside the literal spans
  was pushed, which is also the case when the content is nothing but one literal span: the
  document below is a single inline span, and the token inside it is returned as a tag.
\<close>

theorem extractTags_single_code_span:
  "codeSpanAt ''`#notatag`'' = Some [] \<and> nonCodeParts [] ''`#notatag`'' = []
     \<and> extractTags ''`#notatag`'' = [''notatag'']"
  by code_simp

subsection \<open>Link targets and archive names\<close>

text \<open>
  Claim C1: the target of every emitted link is the name of the archive entry it points to.
  The wiki-link callback never sanitizes: in the vault \<open>vaultLinks\<close> the note
  \<^verbatim>\<open>A/Draft Plan.md\<close> is stored as \<^verbatim>\<open>A/Draft_Plan.md\<close>, and the link that \<^verbatim>\<open>A/x.md\<close> holds to it
  has the target \<^verbatim>\<open>A/Draft Plan.md\<close>.
\<close>

theorem wiki_link_target_not_archive_name:
  "map_option fst
     (processDirectory vaultLinks [''v''] [''v'', ''A'']
        [FileE ''Draft Plan.md'' ''plan'', FileE ''x.md'' ''[[Draft Plan|Plan]]'']
        ''A'' (Some [''v'']) ([], Map.empty))
   = Some [(''A/Draft_Plan.md'',
            ''---\<newline>type: \"SetLeaf\"\<newline>set: \"A\"\<newline>---\<newline>\<newline>plan''),
           (''A/x.md'',
            ''---\<newline>type: \"SetLeaf\"\<newline>set: \"A\"\<newline>---\<newline>\<newline>[Plan](A/Draft Plan.md)'')]"
  by code_simp

subsection \<open>Placeholders for root folders without documents\<close>

text \<open>
  Claim C8: a root folder with no document anywhere beneath it gets a placeholder document that
  is appended to the archive and linked from the index. The source makes the placeholder only
  when the outline of the folder is empty; a heading of a subfolder already makes it non-empty.
  In \<open>vaultHollow\<close> the folder \<^verbatim>\<open>Hollow\<close> gets its placeholder, the folder \<^verbatim>\<open>R\<close>, which holds
  no document either, gets none and no link: the index only shows the heading of \<^verbatim>\<open>S\<close>.
\<close>

theorem no_placeholder_for_folder_of_folders:
  "firstMarkdownIn vaultHollow [''v'', ''R''] [DirE ''S'' []] = None \<and>
   convertToAnytype localeLe vaultHollow [''v''] =
     Some (Archive
       [(''vault.set.md'',
         ''---\<newline>type: \"Set\"\<newline>name: \"vault\"\<newline>---\<newline>\<newline># vault\<newline>\<newline>## Hollow\<newline>\<newline>- [Hollow](Hollow/Hollow.md)\<newline>\<newline>### S\<newline>''),
        (''Hollow/Hollow.md'',
         ''---\<newline>type: SetLeaf\<newline>set: vault\<newline>---\<newline>\<newline># Hollow\<newline>\<newline>This is the root folder: **Hollow**\<newline>'')])"
  by code_simp

subsection \<open>Remote images\<close>







subsection \<open>Exclusion\<close>

lemma startsWith_iff: "startsWith s p \<longleftrightarrow> (\<exists>r. s = p @ r)"
  unfolding startsWith_def
  by (metis append_eq_conv_conj append_take_drop_id)

lemma endsWith_iff: "endsWith s p \<longleftrightarrow> (\<exists>r. s = r @ p)"
proof
  assume "endsWith s p"
  then have "s = take (length s - length p) s @ p"
    unfolding endsWith_def by (metis append_take_drop_id)
  then show "\<exists>r. s = r @ p" ..
next
  assume "\<exists>r. s = r @ p"
  then show "endsWith s p" unfolding endsWith_def by auto
qed

lemma markerName_spec: "markerName (toLowerCase n) \<longleftrightarrow> specMarkerName n"
  unfolding markerName_def specMarkerName_def startsWith_iff endsWith_iff
  by auto

lemma boundaryBefore_Cons:
  "boundaryBefore prevWord (c # pre) = boundaryBefore (isWordChar c) pre"
  by (simp add: boundaryBefore_def)

lemma searchWord_iff:
  "searchWord m prevWord s \<longleftrightarrow>
     (\<exists>pre post. s = pre @ post \<and> post \<noteq> [] \<and> boundaryBefore prevWord pre \<and> m post)"
proof (induction s arbitrary: prevWord)
  case Nil
  show ?case by simp
next
  case (Cons c cs)
  show ?case
  proof
    assume "searchWord m prevWord (c # cs)"
    then consider "\<not> prevWord \<and> m (c # cs)" | "searchWord m (isWordChar c) cs" by auto
    then show "\<exists>pre post. c # cs = pre @ post \<and> post \<noteq> [] \<and> boundaryBefore prevWord pre \<and> m post"
    proof cases
      case 1
      then have "c # cs = [] @ (c # cs) \<and> (c # cs) \<noteq> [] \<and> boundaryBefore prevWord [] \<and> m (c # cs)"
        by (simp add: boundaryBefore_def)
      then show ?thesis by (rule_tac x="[]" in exI, rule_tac x="c # cs" in exI)
    next
      case 2
      then obtain pre post where pp: "cs = pre @ post" "post \<noteq> []"
        "boundaryBefore (isWordChar c) pre" "m post"
        using Cons.IH[of "isWordChar c"] by blast
      then have "c # cs = (c # pre) @ post \<and> post \<noteq> [] \<and> boundaryBefore prevWord (c # pre) \<and> m post"
        by (simp add: boundaryBefore_Cons)
      then show ?thesis by (rule_tac x="c # pre" in exI, rule_tac x="post" in exI)
    qed
  next
    assume "\<exists>pre post. c # cs = pre @ post \<and> post \<noteq> [] \<and> boundaryBefore prevWord pre \<and> m post"
    then obtain pre post where pp: "c # cs = pre @ post" "post \<noteq> []"
        "boundaryBefore prevWord pre" "m post" by blast
    show "searchWord m prevWord (c # cs)"
    proof (cases pre)
      case Nil
      with pp have "\<not> prevWord" "m (c # cs)" by (simp_all add: boundaryBefore_def)
      then show ?thesis by simp
    next
      case (Cons a pre')
      with pp(1) have e: "cs = pre' @ post" "a = c" by simp_all
      have "boundaryBefore (isWordChar c) pre'"
        using pp(3) Cons e(2) by (simp add: boundaryBefore_Cons)
      with e(1) pp(2,4) have "\<exists>pre post. cs = pre @ post \<and> post \<noteq> [] \<and> boundaryBefore (isWordChar c) pre \<and> m post"
        by blast
      then have "searchWord m (isWordChar c) cs"
        using Cons.IH[of "isWordChar c"] by simp
      then show ?thesis by simp
    qed
  qed
qed

lemma joinWith_snoc:
  "joinWith sep (ps @ [n]) = (if ps = [] then n else joinWith sep ps @ sep @ n)"
proof (induction ps)
  case Nil
  show ?case by simp
next
  case (Cons p ps)
  show ?case
  proof (cases ps)
    case Nil
    then show ?thesis by simp
  next
    case (Cons q qs)
    with Cons.IH show ?thesis by simp
  qed
qed

lemma basename_append_slash:
  assumes "n \<noteq> []" "CHR ''/'' \<notin> set n"
  shows "basename (x @ ''/'' @ n) = n"
proof -
  have r: "rev (x @ ''/'' @ n) = rev n @ (CHR ''/'' # rev x)" by simp
  have d: "dropWhile (\<lambda>c. c = CHR ''/'') (rev n @ (CHR ''/'' # rev x)) = rev n @ (CHR ''/'' # rev x)"
    using assms by (cases "rev n") auto
  have all: "\<And>c. c \<in> set (rev n) \<Longrightarrow> c \<noteq> CHR ''/''"
    using assms by auto
  have t: "takeWhile (\<lambda>c. c \<noteq> CHR ''/'') (rev n @ (CHR ''/'' # rev x)) = rev n"
    using takeWhile_append2[of "rev n" "\<lambda>c. c \<noteq> CHR ''/''" "CHR ''/'' # rev x"] all by simp
  show ?thesis unfolding basename_def r d t by simp
qed

lemma basename_plain:
  assumes "n \<noteq> []" "CHR ''/'' \<notin> set n"
  shows "basename n = n"
proof -
  have d: "dropWhile (\<lambda>c. c = CHR ''/'') (rev n) = rev n"
    using assms by (cases "rev n") auto
  have t: "takeWhile (\<lambda>c. c \<noteq> CHR ''/'') (rev n) = rev n"
    using assms by (auto simp: takeWhile_eq_all_conv)
  show ?thesis unfolding basename_def d t by simp
qed

lemma extname_pathString:
  assumes "n \<noteq> []" "CHR ''/'' \<notin> set n"
  shows "extname (pathString (dir @ [n])) = extname n"
proof -
  have "pathString (dir @ [n]) = (if dir = [] then [] else ''/'' @ joinWith ''/'' dir) @ ''/'' @ n"
    by (simp add: pathString_def joinWith_snoc)
  then have "basename (pathString (dir @ [n])) = n"
    using basename_append_slash[OF assms] by metis
  then show ?thesis
    unfolding extname_def using basename_plain[OF assms] by simp
qed

lemma declaresDeleted_iff:
  "declaresDeleted fm \<longleftrightarrow>
      (\<exists>pre post. fm = pre @ post \<and> (pre = [] \<or> \<not> isWordChar (last pre)) \<and>
         (deletedFlagAt post \<or> statusDeletedAt post))"
proof -
  have flag: "\<not> deletedFlagAt []" "\<not> statusDeletedAt []"
    by (simp_all add: deletedFlagAt_def statusDeletedAt_def ciStartsWith_def toLowerCase_def)
  have b: "boundaryBefore False pre \<longleftrightarrow> (pre = [] \<or> \<not> isWordChar (last pre))" for pre
    by (simp add: boundaryBefore_def)
  have one: "searchWord m False fm \<longleftrightarrow>
      (\<exists>pre post. fm = pre @ post \<and> (pre = [] \<or> \<not> isWordChar (last pre)) \<and> m post)"
    if "\<not> m []" for m
  proof
    assume "searchWord m False fm"
    then obtain pre post where "fm = pre @ post" "boundaryBefore False pre" "m post"
      unfolding searchWord_iff by blast
    then show "\<exists>pre post. fm = pre @ post \<and> (pre = [] \<or> \<not> isWordChar (last pre)) \<and> m post"
      unfolding b by blast
  next
    assume "\<exists>pre post. fm = pre @ post \<and> (pre = [] \<or> \<not> isWordChar (last pre)) \<and> m post"
    then obtain pre post where p: "fm = pre @ post" "pre = [] \<or> \<not> isWordChar (last pre)" "m post"
      by blast
    with that have "post \<noteq> []" by auto
    with p show "searchWord m False fm"
      unfolding searchWord_iff b[symmetric] by blast
  qed
  show ?thesis
    unfolding declaresDeleted_def one[of deletedFlagAt, OF flag(1)] one[of statusDeletedAt, OF flag(2)] by blast
qed

text \<open>
  Claim C9, as the source has it: an entry is excluded exactly when its name, in lower case, is
  \<^verbatim>\<open>deleted\<close> or \<^verbatim>\<open>trash\<close>, begins with \<^verbatim>\<open>deleted_\<close> or \<^verbatim>\<open>trash_\<close>, or ends with \<^verbatim>\<open>_deleted\<close> or
  \<^verbatim>\<open>_trash\<close>; or when it has a document extension and its header block holds, behind a word
  boundary and ignoring case, \<^verbatim>\<open>deleted: true|yes|1\<close> or \<^verbatim>\<open>status: deleted\<close>. The directory
  \<open>dir\<close> the entry lies in only serves to read the file: the names of the ancestors play no part.
\<close>

theorem isDeleted_iff:
  assumes "n \<noteq> []" "CHR ''/'' \<notin> set n"
  shows "isDeleted fs (dir @ [n]) n \<longleftrightarrow>
     specMarkerName n \<or>
     (isMarkdownExt (toLowerCase (extname n)) \<and>
      (\<exists>content frontmatter rest pre post.
         readFileSync fs (dir @ [n]) = Some content \<and>
         matchFrontmatter content = Some (frontmatter, rest) \<and>
         frontmatter = pre @ post \<and> (pre = [] \<or> \<not> isWordChar (last pre)) \<and>
         (deletedFlagAt post \<or> statusDeletedAt post)))"
proof (cases "specMarkerName n")
  case True
  then show ?thesis by (simp add: isDeleted_def markerName_spec)
next
  case False
  note nm = False
  show ?thesis
  proof (cases "isMarkdownExt (toLowerCase (extname n))")
    case False
    with nm show ?thesis
      by (simp add: isDeleted_def markerName_spec extname_pathString[OF assms])
  next
    case True
    note md = True
    show ?thesis
    proof (cases "readFileSync fs (dir @ [n])")
      case None
      with nm md show ?thesis
        by (simp add: isDeleted_def markerName_spec extname_pathString[OF assms])
    next
      case (Some content)
      note rd = Some
      show ?thesis
      proof (cases "matchFrontmatter content")
        case None
        with nm md rd show ?thesis
          by (simp add: isDeleted_def markerName_spec extname_pathString[OF assms])
      next
        case (Some fr)
        obtain fm rest where fr: "fr = (fm, rest)" by (cases fr)
        have "isDeleted fs (dir @ [n]) n \<longleftrightarrow> declaresDeleted fm"
          using nm md rd Some fr
          by (simp add: isDeleted_def markerName_spec extname_pathString[OF assms])
        also have "\<dots> \<longleftrightarrow> (\<exists>pre post. fm = pre @ post \<and> (pre = [] \<or> \<not> isWordChar (last pre)) \<and>
         (deletedFlagAt post \<or> statusDeletedAt post))"
          by (rule declaresDeleted_iff)
        finally show ?thesis
          using nm md rd Some fr by simp
      qed
    qed
  qed
qed


theorem isDeleted_iff_witness:
  "isDeleted [] [''v'', ''trash_old''] ''trash_old'' \<and>
   \<not> isDeleted [DirE ''deleted_stuff'' [DirE ''Projects'' []]]
         [''deleted_stuff'', ''Projects''] ''Projects''"
proof
  have "toLowerCase ''trash_old'' = ''trash'' @ ''_'' @ ''old''" by code_simp
  then have "specMarkerName ''trash_old''"
    unfolding specMarkerName_def by blast
  then show "isDeleted [] [''v'', ''trash_old''] ''trash_old''"
    using isDeleted_iff[of "''trash_old''" "[]" "[''v'']"] by simp
next
  have "\<not> markerName (toLowerCase ''Projects'')" by code_simp
  then have m: "\<not> specMarkerName ''Projects''" by (simp add: markerName_spec)
  have e: "\<not> isMarkdownExt (toLowerCase (extname ''Projects''))" by code_simp
  show "\<not> isDeleted [DirE ''deleted_stuff'' [DirE ''Projects'' []]]
         [''deleted_stuff'', ''Projects''] ''Projects''"
    using isDeleted_iff[of "''Projects''" "[DirE ''deleted_stuff'' [DirE ''Projects'' []]]"
            "[''deleted_stuff'']"] m e by simp
qed

text \<open>
  The claim as it is worded speaks of a deleted or trashed status. The source knows no trashed
  status: the document of \<open>vaultTrashed\<close> declares one and is not excluded.
\<close>

theorem trashed_status_not_excluded:
  "\<not> (isDeleted vaultTrashed [''v'', ''a.md''] ''a.md''
        \<longleftrightarrow> specIsDeleted vaultTrashed [''v'', ''a.md''] ''a.md'')"
proof -
  have c: "\<not> isDeleted vaultTrashed [''v'', ''a.md''] ''a.md''" by code_simp
  have "isMarkdownExt (toLowerCase (extname (pathString [''v'', ''a.md''])))" by code_simp
  moreover have "(case readFileSync vaultTrashed [''v'', ''a.md''] of
          None \<Rightarrow> False
        | Some content \<Rightarrow>
            (case matchFrontmatter content of
               Some (frontmatter, _) \<Rightarrow> specDeclaresStatus frontmatter
             | None \<Rightarrow> False))" by code_simp
  ultimately have "specIsDeleted vaultTrashed [''v'', ''a.md''] ''a.md''"
    unfolding specIsDeleted_def by blast
  with c show ?thesis by simp
qed

subsection \<open>The root-set walk ends below the export root\<close>

lemma walkUpToRoot_total:
  "rest \<noteq> [] \<Longrightarrow> \<exists>r. walkUpToRoot fs np (normalizePath root) (root @ rest) = Some r"
proof (induction rest rule: rev_induct)
  case Nil
  then show ?case by simp
next
  case (snoc x xs)
  have d: "dirname (root @ xs @ [x]) = root @ xs"
    by (simp add: dirname_def butlast_append)
  show ?case
  proof (cases "normalizePath (root @ xs) = normalizePath root")
    case True
    then show ?thesis
      by (subst walkUpToRoot.simps) (simp add: d)
  next
    case False
    then have "xs \<noteq> []" by auto
    then obtain r where "walkUpToRoot fs np (normalizePath root) (root @ xs) = Some r"
      using snoc.IH by blast
    with False show ?thesis
      by (subst walkUpToRoot.simps) (simp add: d)
  qed
qed

lemma getRootSetForPathExport_total:
  "\<exists>r. getRootSetForPathExport fs vaultPath (root @ rest) root = Some r"
proof (cases "rest = []")
  case True
  then show ?thesis by (simp add: getRootSetForPathExport_def)
next
  case False
  then show ?thesis
    using walkUpToRoot_total[OF False, of fs "normalizePath (root @ rest)" root]
    by (auto simp: getRootSetForPathExport_def)
qed

lemma getSetInfoForExport_total:
  "\<exists>r. getSetInfoForExport fs vaultPath cache (root @ rest) relPath root = Some r"
proof -
  obtain r where "getRootSetForPathExport fs vaultPath (root @ rest) root = Some r"
    using getRootSetForPathExport_total by blast
  then show ?thesis
    by (auto simp: getSetInfoForExport_def Let_def split: option.splits)
qed

lemma noteSetInfoFor_total:
  "\<exists>r. noteSetInfoFor fs vaultPath (root @ rest) root info cache = Some r"
proof -
  obtain r where "getRootSetForPathExport fs vaultPath (root @ rest) root = Some r"
    using getRootSetForPathExport_total by blast
  then show ?thesis
    by (auto simp: noteSetInfoFor_def Let_def split: option.splits)
qed

subsection \<open>Traversal order\<close>

lemma filesOf_member:
  assumes "e \<in> set (filesOf fs dir entries)"
  shows "\<exists>n c. e = FileE n c \<and> n \<noteq> ''.set.md''"
proof -
  from assms have nd: "\<not> isDirectory e" and nh: "\<not> hiddenName (entryName e)"
    by (auto simp: filesOf_def visibleEntries_def)
  from nd obtain n c where e: "e = FileE n c" by (cases e) auto
  have "hiddenName ''.set.md''" by code_simp
  with nh e have "n \<noteq> ''.set.md''" by auto
  with e show ?thesis by blast
qed

lemma processFile_names:
  assumes "e = FileE n c" "n \<noteq> ''.set.md''"
  shows "\<exists>ar' info' cache'.
           processFile fs vaultPath (root @ rest) relPath root e (ar, info, cache)
             = Some (ar', info', cache') \<and>
           map fst ar' = map fst ar @ [sanitizePathForLink (entryRelativePathOf relPath n)]"
proof -
  obtain r where "noteSetInfoFor fs vaultPath (root @ rest) root info cache = Some r"
    using noteSetInfoFor_total by blast
  then show ?thesis
    using assms by (cases r) (auto simp: processFile_def Let_def)
qed

lemma processFiles_names:
  assumes "\<And>e. e \<in> set es \<Longrightarrow> \<exists>n c. e = FileE n c \<and> n \<noteq> ''.set.md''"
  shows "\<exists>ar' info' cache'.
           processFiles fs vaultPath (root @ rest) relPath root es (ar, info, cache)
             = Some (ar', info', cache') \<and>
           map fst ar' = map fst ar
             @ map (\<lambda>e. sanitizePathForLink (entryRelativePathOf relPath (entryName e))) es"
  using assms
proof (induction es arbitrary: ar info cache)
  case Nil
  show ?case by simp
next
  case (Cons e es)
  from Cons.prems[of e] obtain n c where e: "e = FileE n c" "n \<noteq> ''.set.md''" by auto
  from processFile_names[OF e] obtain ar1 info1 cache1 where
    1: "processFile fs vaultPath (root @ rest) relPath root e (ar, info, cache)
          = Some (ar1, info1, cache1)"
      "map fst ar1 = map fst ar @ [sanitizePathForLink (entryRelativePathOf relPath n)]"
    by blast
  from Cons.IH[of ar1 info1 cache1] Cons.prems obtain ar' info' cache' where
    2: "processFiles fs vaultPath (root @ rest) relPath root es (ar1, info1, cache1)
          = Some (ar', info', cache')"
      "map fst ar' = map fst ar1
         @ map (\<lambda>e. sanitizePathForLink (entryRelativePathOf relPath (entryName e))) es"
    by auto
  show ?case using 1 2 e by simp
qed

lemma processDirectory_names_mutual:
  "(\<forall>rest ar cache. dir = (case exportRootPath of Some r \<Rightarrow> r | None \<Rightarrow> vaultPath) @ rest \<longrightarrow>
      st = (ar, cache) \<longrightarrow>
      (\<exists>ar' cache'. processDirectory fs vaultPath dir entries relPath exportRootPath st
                        = Some (ar', cache') \<and>
         map fst ar' = map fst ar @ traversalNames fs dir relPath entries))"
  "(\<forall>rest ar cache. dir2 = root @ rest \<longrightarrow> st2 = (ar, cache) \<longrightarrow>
      (\<exists>ar' cache'. processDirectories fs2 vaultPath2 dir2 relPath2 root ds st2
                        = Some (ar', cache') \<and>
         map fst ar' = map fst ar @ subdirectoryNames fs2 dir2 relPath2 ds))"
proof (induction fs vaultPath dir entries relPath exportRootPath st
        and fs2 vaultPath2 dir2 relPath2 root ds st2
        rule: processDirectory_processDirectories.induct)
  case (1 fs vaultPath dir entries relPath exportRootPath st)
  let ?root = "case exportRootPath of Some r \<Rightarrow> r | None \<Rightarrow> vaultPath"
  show ?case
  proof (intro allI impI)
    fix rest ar cache
    assume dir: "dir = ?root @ rest" and st: "st = (ar, cache)"
    show "\<exists>ar' cache'. processDirectory fs vaultPath dir entries relPath exportRootPath st
                        = Some (ar', cache') \<and>
         map fst ar' = map fst ar @ traversalNames fs dir relPath entries"
    proof (cases "isDeleted fs dir (baseOf dir)")
      case True
      then show ?thesis using st by simp
    next
      case False
      obtain info cache1 where g: "getSetInfoForExport fs vaultPath (snd st) dir relPath ?root
          = Some (info, cache1)"
        using getSetInfoForExport_total[of fs vaultPath "snd st" ?root rest relPath] dir by auto
      obtain ar2 info2 cache2 where
        f: "processFiles fs vaultPath dir relPath ?root (filesOf fs dir entries) (fst st, info, cache1)
              = Some (ar2, info2, cache2)"
        and fn: "map fst ar2 = map fst (fst st)
             @ map (\<lambda>e. sanitizePathForLink (entryRelativePathOf relPath (entryName e)))
                 (filesOf fs dir entries)"
        using processFiles_names[of "filesOf fs dir entries" fs vaultPath ?root rest relPath
                "fst st" info cache1] filesOf_member dir by blast
      from 1[OF False g refl f refl refl] dir
      obtain ar' cache' where
        d: "processDirectories fs vaultPath dir relPath ?root (directoriesOf fs dir entries)
              (ar2, cache2) = Some (ar', cache')"
        and dn: "map fst ar' = map fst ar2
              @ subdirectoryNames fs dir relPath (directoriesOf fs dir entries)"
        by blast
      show ?thesis
        using False g f d dn fn st by simp
    qed
  qed
next
  case (2 fs vaultPath dir relPath effectiveRootPath st)
  show ?case by simp
next
  case (3 fs vaultPath dir relPath effectiveRootPath n c ds st)
  then show ?case by simp
next
  case (4 fs vaultPath dir relPath effectiveRootPath n cs ds st)
  show ?case
  proof (intro allI impI)
    fix rest ar cache
    assume dir: "dir = effectiveRootPath @ rest" and st: "st = (ar, cache)"
    from 4(1) dir st obtain ar1 cache1 where
      a: "processDirectory fs vaultPath (dir @ [n]) cs
            (sanitizePathForLink (entryRelativePathOf relPath n)) (Some effectiveRootPath) st
          = Some (ar1, cache1)"
      and an: "map fst ar1 = map fst ar
          @ traversalNames fs (dir @ [n]) (sanitizePathForLink (entryRelativePathOf relPath n)) cs"
      by fastforce
    from 4(2)[OF a] dir obtain ar' cache' where
      b: "processDirectories fs vaultPath dir relPath effectiveRootPath ds (ar1, cache1)
            = Some (ar', cache')"
      and bn: "map fst ar' = map fst ar1 @ subdirectoryNames fs dir relPath ds"
      by blast
    show "\<exists>ar' cache'. processDirectories fs vaultPath dir relPath effectiveRootPath
              (DirE n cs # ds) st = Some (ar', cache') \<and>
         map fst ar' = map fst ar @ subdirectoryNames fs dir relPath (DirE n cs # ds)"
      using a an b bn by simp
  qed
qed

text \<open>
  Claim C7, as the source has it: below the export root \<^verbatim>\<open>processDirectory\<close> returns, and it
  appends the kept files of the directory in the order of the listing, all of them before
  anything of a subdirectory; the subdirectories follow in the order of the listing. The
  listing is not sorted.
\<close>

theorem processDirectory_listing_order:
  "\<exists>ar' cache'.
     processDirectory fs vaultPath (root @ rest) entries relPath (Some root) (ar, cache)
       = Some (ar', cache') \<and>
     map fst ar' = map fst ar @
       (if isDeleted fs (root @ rest) (baseOf (root @ rest)) then []
        else map (\<lambda>e. sanitizePathForLink (entryRelativePathOf relPath (entryName e)))
               (filesOf fs (root @ rest) entries)
             @ subdirectoryNames fs (root @ rest) relPath (directoriesOf fs (root @ rest) entries))"
proof -
  from processDirectory_names_mutual(1)[where dir = "root @ rest" and exportRootPath = "Some root"
         and vaultPath = vaultPath and st = "(ar, cache)" and fs = fs and entries = entries
         and relPath = relPath]
  obtain ar' cache' where
    "processDirectory fs vaultPath (root @ rest) entries relPath (Some root) (ar, cache)
       = Some (ar', cache')"
    "map fst ar' = map fst ar @ traversalNames fs (root @ rest) relPath entries"
    by auto
  then show ?thesis by auto
qed

theorem processDirectory_listing_order_witness:
  "\<exists>ar' cache'.
     processDirectory vaultOrder [''v''] [''v'', ''R'']
       [FileE ''b.txt'' ''B'', DirE ''S'' [FileE ''c.txt'' ''C''], FileE ''a.txt'' ''A'']
       ''R'' (Some [''v'']) ([], Map.empty) = Some (ar', cache') \<and>
     map fst ar' = [''R/b.txt'', ''R/a.txt'', ''R/S/c.txt'']"
proof -
  let ?es = "[FileE ''b.txt'' ''B'', DirE ''S'' [FileE ''c.txt'' ''C''], FileE ''a.txt'' ''A'']"
  have n: "(if isDeleted vaultOrder ([''v''] @ [''R'']) (baseOf ([''v''] @ [''R''])) then []
        else map (\<lambda>e. sanitizePathForLink (entryRelativePathOf ''R'' (entryName e)))
               (filesOf vaultOrder ([''v''] @ [''R'']) ?es)
             @ subdirectoryNames vaultOrder ([''v''] @ [''R'']) ''R''
                 (directoriesOf vaultOrder ([''v''] @ [''R'']) ?es))
         = [''R/b.txt'', ''R/a.txt'', ''R/S/c.txt'']"
    by code_simp
  from processDirectory_listing_order[of vaultOrder "[''v'']" "[''v'']" "[''R'']" ?es "''R''" "[]"
         Map.empty]
  show ?thesis unfolding n by simp
qed

text \<open>
  The claim as it is worded has the entries processed in name-sorted order. In \<open>vaultOrder\<close>
  the listing has \<^verbatim>\<open>b.txt\<close> before \<^verbatim>\<open>a.txt\<close>, and so has the archive.
\<close>

theorem processDirectory_not_name_sorted:
  "map_option (map fst \<circ> fst)
     (processDirectory vaultOrder [''v''] [''v'', ''R'']
        [FileE ''b.txt'' ''B'', DirE ''S'' [FileE ''c.txt'' ''C''], FileE ''a.txt'' ''A'']
        ''R'' (Some [''v'']) ([], Map.empty))
     = Some [''R/b.txt'', ''R/a.txt'', ''R/S/c.txt'']
   \<and> \<not> sorted [''R/b.txt'', ''R/a.txt'']"
  by code_simp

subsection \<open>The characters of a sanitized path\<close>

lemma set_splitOn: "p \<in> set (splitOn d s) \<Longrightarrow> set p \<subseteq> set s"
proof (induction s arbitrary: p)
  case Nil
  then show ?case by simp
next
  case (Cons c cs)
  show ?case
  proof (cases "c = d")
    case True
    with Cons show ?thesis by auto
  next
    case False
    show ?thesis
    proof (cases "splitOn d cs")
      case Nil
      with Cons.prems False show ?thesis by simp
    next
      case (Cons q qs)
      with Cons.prems False have "p = c # q \<or> p \<in> set qs" by simp
      then show ?thesis
      proof
        assume "p = c # q"
        moreover have "set q \<subseteq> set cs" using Cons.IH[of q] Cons by simp
        ultimately show ?thesis by auto
      next
        assume "p \<in> set qs"
        then have "set p \<subseteq> set cs" using Cons.IH[of p] Cons by simp
        then show ?thesis by auto
      qed
    qed
  qed
qed

lemma set_joinWith: "set (joinWith sep ps) \<subseteq> set sep \<union> (\<Union>p \<in> set ps. set p)"
  by (induction sep ps rule: joinWith.induct) auto

lemma set_replaceSpaceRuns:
  "set (replaceSpaceRuns b r s) \<subseteq> set r \<union> {c \<in> set s. \<not> isSpace c}"
  by (induction s arbitrary: b) auto

lemma sanitize_chars:
  assumes "c \<in> set (sanitizePathForLink p)"
  shows "c = CHR ''/'' \<or> c = CHR ''_'' \<or> (c \<in> set (slashes p) \<and> \<not> isSpace c)"
proof -
  from assms set_joinWith[of "''/''" "map (replaceSpaces ''_'') (splitOn (CHR ''/'') (slashes p))"]
  have "c = CHR ''/'' \<or> (\<exists>q \<in> set (splitOn (CHR ''/'') (slashes p)). c \<in> set (replaceSpaces ''_'' q))"
    unfolding sanitizePathForLink_def by auto
  then show ?thesis
  proof
    assume "c = CHR ''/''"
    then show ?thesis by simp
  next
    assume "\<exists>q \<in> set (splitOn (CHR ''/'') (slashes p)). c \<in> set (replaceSpaces ''_'' q)"
    then obtain q where q: "q \<in> set (splitOn (CHR ''/'') (slashes p))" "c \<in> set (replaceSpaces ''_'' q)"
      by blast
    from q(2) set_replaceSpaceRuns[of False "''_''" q]
    have "c = CHR ''_'' \<or> (c \<in> set q \<and> \<not> isSpace c)"
      unfolding replaceSpaces_def by auto
    with set_splitOn[OF q(1)] show ?thesis by auto
  qed
qed

lemma sanitize_no_space: "c \<in> set (sanitizePathForLink p) \<Longrightarrow> \<not> isSpace c"
  using sanitize_chars[of c p] by (auto simp: isSpace_def)

lemma slashes_no_backslash: "CHR 0x5C \<notin> set (slashes s)"
  by (auto simp: slashes_def)

lemma slashes_id: "CHR 0x5C \<notin> set s \<Longrightarrow> slashes s = s"
  unfolding slashes_def by (induction s) auto

lemma slashes_sanitize: "slashes (sanitizePathForLink p) = sanitizePathForLink p"
proof (rule slashes_id)
  show "CHR 0x5C \<notin> set (sanitizePathForLink p)"
    using sanitize_chars[of "CHR 0x5C" p] slashes_no_backslash[of p] by auto
qed

lemma sanitize_slashes: "sanitizePathForLink (slashes p) = sanitizePathForLink p"
proof -
  have "slashes (slashes p) = slashes p"
    by (rule slashes_id) (rule slashes_no_backslash)
  then show ?thesis by (simp add: sanitizePathForLink_def)
qed


subsection \<open>Embeds in the converter\<close>

text \<open>
  Claim C3: a note reference or an asset embed whose target exists at a place the search visits
  is resolved. \<^verbatim>\<open>processMarkdownFile\<close> converts the wiki-links first, and their expression also
  matches the brackets of an embed: \<^verbatim>\<open>![[data.yaml]]\<close> is the image reference
  \<^verbatim>\<open>![data.yaml](data.yaml.md)\<close> before \<^verbatim>\<open>convertImages\<close> sees it, so the search of the embed
  callback is never reached. The second pass of \<^verbatim>\<open>convertImages\<close> takes the \<^verbatim>\<open>.md\<close> away only
  behind an extension of its list. In \<open>vaultAssets\<close> both embedded files lie beside the document,
  the first place the embed callback looks at, and that callback resolves \<^verbatim>\<open>data.yaml\<close> when it
  is called; the converter emits the target \<^verbatim>\<open>data.yaml.md\<close>, which names no file and no entry
  of the archive, while \<^verbatim>\<open>pic.png\<close> is resolved.
\<close>

theorem embed_beside_document_not_resolved:
  "existsSync vaultAssets [''v'', ''A'', ''data.yaml'']
   \<and> resolveEmbed vaultAssets [''v''] [''v'', ''A''] ''data.yaml'' = [''v'', ''A'', ''data.yaml'']
   \<and> embedCallback vaultAssets [''v''] [''v'', ''A''] ''![[data.yaml]]'' ''data.yaml''
       = ''![data](A/data.yaml)''
   \<and> convertObsidianLinks vaultAssets [''v''] ''![[data.yaml]] and ![[pic.png]]'' [''v'', ''A'']
       = ''![data.yaml](data.yaml.md) and ![pic.png](pic.png.md)''
   \<and> map_option fst
         (processDirectory vaultAssets [''v''] [''v'', ''A'']
            [FileE ''p.md'' ''![[data.yaml]] and ![[pic.png]]'', FileE ''data.yaml'' ''k: v'',
             FileE ''pic.png'' ''P'']
            ''A'' (Some [''v'']) ([], Map.empty))
       = Some [(''A/p.md'',
                ''---\<newline>type: \"SetLeaf\"\<newline>set: \"A\"\<newline>---\<newline>\<newline>![data.yaml](data.yaml.md) and ![pic.png](A/pic.png)''),
               (''A/data.yaml'', ''k: v''),
               (''A/pic.png'', ''P'')]"
proof -
  have a: "existsSync vaultAssets [''v'', ''A'', ''data.yaml'']" by code_simp
  have b: "resolveEmbed vaultAssets [''v''] [''v'', ''A''] ''data.yaml'' = [''v'', ''A'', ''data.yaml'']"
    by code_simp
  have c: "embedCallback vaultAssets [''v''] [''v'', ''A''] ''![[data.yaml]]'' ''data.yaml''
       = ''![data](A/data.yaml)''"
    by code_simp
  have d: "convertObsidianLinks vaultAssets [''v''] ''![[data.yaml]] and ![[pic.png]]'' [''v'', ''A'']
       = ''![data.yaml](data.yaml.md) and ![pic.png](pic.png.md)''"
    by code_simp
  have e: "map_option fst
         (processDirectory vaultAssets [''v''] [''v'', ''A'']
            [FileE ''p.md'' ''![[data.yaml]] and ![[pic.png]]'', FileE ''data.yaml'' ''k: v'',
             FileE ''pic.png'' ''P'']
            ''A'' (Some [''v'']) ([], Map.empty))
       = Some [(''A/p.md'',
                ''---\<newline>type: \"SetLeaf\"\<newline>set: \"A\"\<newline>---\<newline>\<newline>![data.yaml](data.yaml.md) and ![pic.png](A/pic.png)''),
               (''A/data.yaml'', ''k: v''),
               (''A/pic.png'', ''P'')]"
    by code_simp
  show ?thesis by (intro conjI a b c d e)
qed

subsection \<open>Role and owning container\<close>

text \<open>
  Claim C4: a document below a root folder is emitted with the type \<^verbatim>\<open>SetLeaf\<close> and with the
  name of that folder as its set. For a document that has a header block the new header is the
  replacement text of \<^verbatim>\<open>String.prototype.replace\<close>, where \<^verbatim>\<open>$1\<close> stands for the first group of
  the match. The root set of the folder \<^verbatim>\<open>Top $100\<close> of \<open>vaultDollar\<close> is computed as its name;
  the document in it is emitted with the set \<^verbatim>\<open>Top title: x00\<close>, the old header in the place of
  \<^verbatim>\<open>$1\<close>. A document without header block, whose header is not passed through a replacement,
  gets the name as it is.
\<close>

theorem set_field_rewritten_by_template:
  "getRootSetForPathExport vaultDollar [''v''] [''v'', ''Top $100''] [''v'']
     = Some (Some ''Top $100'')
   \<and> convertToAnytype localeLe vaultDollar [''v''] =
       Some (Archive
         [(''vault.set.md'',
           ''---\<newline>type: \"Set\"\<newline>name: \"vault\"\<newline>---\<newline>\<newline># vault\<newline>\<newline>- [n](Top_$100/n.md)\<newline>''),
          (''Top_$100/n.md'',
           ''---\<newline>title: \"x\"\<newline>type: \"SetLeaf\"\<newline>set: \"Top title: x00\"\<newline>---\<newline>body'')])
   \<and> addPageMetadata ''body'' (Some (folderInfoA\<lparr>rootSet := Some ''Top $100''\<rparr>))
       = ''---\<newline>type: \"SetLeaf\"\<newline>set: \"Top $100\"\<newline>---\<newline>\<newline>body''"
proof -
  have a: "getRootSetForPathExport vaultDollar [''v''] [''v'', ''Top $100''] [''v'']
     = Some (Some ''Top $100'')"
    by code_simp
  have b: "convertToAnytype localeLe vaultDollar [''v''] =
       Some (Archive
         [(''vault.set.md'',
           ''---\<newline>type: \"Set\"\<newline>name: \"vault\"\<newline>---\<newline>\<newline># vault\<newline>\<newline>- [n](Top_$100/n.md)\<newline>''),
          (''Top_$100/n.md'',
           ''---\<newline>title: \"x\"\<newline>type: \"SetLeaf\"\<newline>set: \"Top title: x00\"\<newline>---\<newline>body'')])"
    by code_simp
  have c: "addPageMetadata ''body'' (Some (folderInfoA\<lparr>rootSet := Some ''Top $100''\<rparr>))
       = ''---\<newline>type: \"SetLeaf\"\<newline>set: \"Top $100\"\<newline>---\<newline>\<newline>body''"
    by code_simp
  show ?thesis by (intro conjI a b c)
qed

subsection \<open>Unresolved references\<close>

text \<open>
  Claim C6: a wiki-link or an embed whose target is not found still becomes a link, to the
  sanitized path relative to the vault when that can be built, and to the sanitized reference
  otherwise. The branch of the embed callback for a target that is not found builds that path:
  called for the embeds of \<open>vaultBroken\<close> it gives \<^verbatim>\<open>A/no_such_pic.png\<close> and \<^verbatim>\<open>A/no_such.yaml\<close>. In
  the converter the embeds have been rewritten as wiki-links before: the first is emitted with
  the target \<^verbatim>\<open>no_such_pic.png\<close>, without the folder, the second with \<^verbatim>\<open>no_such.yaml.md\<close>, which
  is not the reference either. The target of the unresolved wiki-link keeps its spaces, and no
  sanitized path has a space.
\<close>

theorem unresolved_references_emitted:
  "embedCallback vaultBroken [''v''] [''v'', ''A''] ''![[no such pic.png]]'' ''no such pic.png''
     = ''![no such pic.png](A/no_such_pic.png)''
   \<and> embedCallback vaultBroken [''v''] [''v'', ''A''] ''![[no such.yaml]]'' ''no such.yaml''
     = ''![no such.yaml](A/no_such.yaml)''
   \<and> convertToAnytype localeLe vaultBroken [''v''] =
       Some (Archive
         [(''vault.set.md'',
           ''---\<newline>type: \"Set\"\<newline>name: \"vault\"\<newline>---\<newline>\<newline># vault\<newline>\<newline>- [p](A/p.md)\<newline>''),
          (''A/p.md'',
           ''---\<newline>type: \"SetLeaf\"\<newline>set: \"A\"\<newline>---\<newline>\<newline>![no such pic.png](no_such_pic.png) [No Such Note](No Such Note.md) ![no such.yaml](no_such.yaml.md)'')])
   \<and> \<not> (\<exists>p. sanitizePathForLink p = ''No Such Note.md'')"
proof -
  have a: "embedCallback vaultBroken [''v''] [''v'', ''A''] ''![[no such pic.png]]'' ''no such pic.png''
     = ''![no such pic.png](A/no_such_pic.png)''" by code_simp
  have b: "embedCallback vaultBroken [''v''] [''v'', ''A''] ''![[no such.yaml]]'' ''no such.yaml''
     = ''![no such.yaml](A/no_such.yaml)''" by code_simp
  have c: "convertToAnytype localeLe vaultBroken [''v''] =
       Some (Archive
         [(''vault.set.md'',
           ''---\<newline>type: \"Set\"\<newline>name: \"vault\"\<newline>---\<newline>\<newline># vault\<newline>\<newline>- [p](A/p.md)\<newline>''),
          (''A/p.md'',
           ''---\<newline>type: \"SetLeaf\"\<newline>set: \"A\"\<newline>---\<newline>\<newline>![no such pic.png](no_such_pic.png) [No Such Note](No Such Note.md) ![no such.yaml](no_such.yaml.md)'')])"
    by code_simp
  have d: "\<not> (\<exists>p. sanitizePathForLink p = ''No Such Note.md'')"
  proof
    assume "\<exists>p. sanitizePathForLink p = ''No Such Note.md''"
    then obtain p where p: "sanitizePathForLink p = ''No Such Note.md''" by blast
    have "CHR '' '' \<in> set (sanitizePathForLink p)" unfolding p by simp
    then have "\<not> isSpace (CHR '' '')" by (rule sanitize_no_space)
    then show False by (simp add: isSpace_def)
  qed
  show ?thesis by (intro conjI a b c d)
qed

subsection \<open>Repeating the merge\<close>




subsubsection \<open>code parts\<close>








subsubsection \<open>tags behind a prefix\<close>









subsubsection \<open>blank lines\<close>












subsubsection \<open>the header is found again\<close>









subsubsection \<open>the header is read back\<close>









subsubsection \<open>the template\<close>




subsubsection \<open>the merge behind a synthesized header\<close>





text \<open>
  With a tag the second application also reads the nested tag line of the first as a key of
  the header and writes it back at the top level.
\<close>

lemma merge_with_tag_repeated:
  "addPageMetadata ''x #todo'' None
     = ''---\<newline>type: \"Page\"\<newline>tags:\<newline>  todo: \"todo\"\<newline>---\<newline>\<newline>x #todo''
   \<and> addPageMetadata (addPageMetadata ''x #todo'' None) None
     = ''---\<newline>type: \"Page\"\<newline>tags:\<newline>  todo: \"todo\"\<newline>todo: \"todo\"\<newline>---\<newline>x #todo''"
  by code_simp

end
